theory Spec2Isabelle
  imports Main "HOL-Library.Word"
begin

unbundle bit_operations_syntax

section \<open>The latency probe: data model\<close>

text \<open>
  \<^verbatim>\<open>main.go\<close> holds two versions of the program: the instrumented \<^verbatim>\<open>main\<close>
  (OpenTelemetry spans, namespace from \<^verbatim>\<open>currentNamespace\<close>, cleanup in the main
  goroutine) and the uninstrumented \<^verbatim>\<open>main\<close> (namespace \<^verbatim>\<open>"default"\<close>, a second
  goroutine that measures the latency and deletes the pod). Both are embedded as
  interleaving step functions over one state type: a schedule is a list of events, an
  event either lets time pass, delivers SIGTERM/SIGINT, or lets one goroutine run up to
  and including its next blocking operation (a Kubernetes API call, a channel operation
  or a \<^verbatim>\<open>select\<close>). The statements between two blocking operations (prints, span calls,
  \<^verbatim>\<open>time.Now\<close>, \<^verbatim>\<open>go\<close>) run in the step of the blocking operation before them.
  What the outside world answers is part of the event (\<open>reply\<close>).
\<close>

subsection \<open>The process environment and \<^verbatim>\<open>currentNamespace\<close>\<close>

text \<open>
  What the start-up code reads: the errors (if any) of the OTLP exporter, of
  \<^verbatim>\<open>resource.New\<close>, of \<^verbatim>\<open>rest.InClusterConfig\<close> and of \<^verbatim>\<open>kubernetes.NewForConfig\<close>;
  \<^verbatim>\<open>os.Getenv\<close> (the empty string for an unset variable); \<^verbatim>\<open>os.ReadFile\<close> (an
  error or the content); \<^verbatim>\<open>rand.Read\<close> (an error, or the bytes it writes).
\<close>

record penv =
  otel_exporter :: "string option"
  otel_resource :: "string option"
  in_cluster_config :: "string option"
  new_for_config :: "string option"
  getenv :: "string \<Rightarrow> string"
  read_file :: "string \<Rightarrow> string + string"
  rand_err :: "string option"
  rand_byte :: "nat \<Rightarrow> 8 word"

definition namespace_file :: string where
  "namespace_file = ''/var/run/secrets/kubernetes.io/serviceaccount/namespace''"

definition currentNamespace :: "penv \<Rightarrow> string + string" where
  "currentNamespace pe =
     (let ns = getenv pe ''K8S_NAMESPACE_NAME'' in
      if ns \<noteq> '''' then Inr ns
      else case read_file pe namespace_file of
             Inl err \<Rightarrow> Inl (''failed to read namespace: '' @ err)
           | Inr data \<Rightarrow> Inr data)"

text \<open>\<^verbatim>\<open>hex.EncodeToString\<close>: two lower-case hexadecimal digits for each byte.\<close>

definition hextable :: string where
  "hextable = ''0123456789abcdef''"

fun encodeToString :: "8 word list \<Rightarrow> string" where
  "encodeToString [] = []"
| "encodeToString (b # bs) =
     hextable ! unat (drop_bit 4 b) # hextable ! unat (b AND 0x0f) # encodeToString bs"

text \<open>\<^verbatim>\<open>buf := make([]byte, 8); rand.Read(buf); instance := hex.EncodeToString(buf)\<close>\<close>

definition new_instance :: "penv \<Rightarrow> string" where
  "new_instance pe = encodeToString (map (rand_byte pe) [0..<8])"

subsection \<open>Kubernetes calls, output lines, spans\<close>

datatype k8s_op =
    Create string string          \<comment> \<open>namespace, pod name\<close>
  | ListPods string string        \<comment> \<open>namespace, label selector\<close>
  | Patch string string string    \<comment> \<open>namespace, pod name, merge patch\<close>
  | Delete string string          \<comment> \<open>namespace, pod name\<close>

datatype k8s_result =
    Failed string                 \<comment> \<open>the call returned this error\<close>
  | Pod string                    \<comment> \<open>the pod returned by Create or Patch, by its name\<close>
  | Items "string list"           \<comment> \<open>\<^verbatim>\<open>pods.Items\<close>, by name\<close>
  | Deleted

text \<open>One constructor for each \<^verbatim>\<open>fmt.Printf\<close>/\<^verbatim>\<open>fmt.Println\<close> of the source.\<close>

datatype line =
    CreatedPod string             \<comment> \<open>\<^verbatim>\<open>Created pod %s\<close>\<close>
  | ContextDoneExiting            \<comment> \<open>\<^verbatim>\<open>Context done, exiting...\<close>\<close>
  | ContextDoneCleaningUp         \<comment> \<open>\<^verbatim>\<open>Context done, cleaning up and exiting...\<close>\<close>
  | DeadlineExpired               \<comment> \<open>\<^verbatim>\<open>context deadline expired before pod was found...\<close>\<close>
  | PodFoundLatency int           \<comment> \<open>\<^verbatim>\<open>pod found latency_ms=%d\<close>\<close>
  | DeletingPod                   \<comment> \<open>\<^verbatim>\<open>deleting pod...\<close>\<close>
  | DeletedPod string             \<comment> \<open>\<^verbatim>\<open>Deleted pod %s\<close>\<close>
  | FailedShutdown string         \<comment> \<open>\<^verbatim>\<open>failed to shutdown tracer provider: %v\<close>\<close>

datatype span_ev =
    SpanStart string
  | SpanAttr string string string
  | SpanAddEvent string string
  | SpanError string string
  | SpanEnd string
  | ProviderShutdown

text \<open>
  How the process ended: still running, returned from \<^verbatim>\<open>main\<close>, died of a panic (with
  its message), or was killed by a signal that arrived before \<^verbatim>\<open>signal.NotifyContext\<close>.
\<close>

datatype status = Running | Exited | Panicked string | Killed

subsection \<open>Goroutines and the state\<close>

datatype main_pc = M_Init | M_Create | M_Patch | M_Select | M_Delete | M_Done

datatype poller_pc = P_Idle | P_Start | P_List | P_Wait | P_Send | P_Close | P_Done

datatype coord_pc = C_Idle | C_Start | C_Select | C_Delete | C_SendDone | C_Done

datatype tid = Main | Poller | Coordinator

text \<open>
  What the world answers to the step that is scheduled: the error of the API call (if
  it fails), the pod that Create returns, the items that List returns, which case a
  \<^verbatim>\<open>select\<close> takes when both are ready (Go picks one at random), and the error of
  \<^verbatim>\<open>tp.Shutdown\<close> when the step runs the deferred shutdown.
\<close>

record reply =
  failure :: "string option"
  pod :: string
  items :: "string list"
  prefer_ctx :: bool
  shutdown_failure :: "string option"

datatype event = Advance int | Signal | Step tid reply

text \<open>
  Times are nanoseconds on the monotonic clock. \<open>ticker\<close> is the time of the next
  tick of the poller's ticker (\<open>None\<close>: no ticker running); its channel has room for one
  tick (\<open>tick_pending\<close>). The channel \<^verbatim>\<open>found\<close> is unbuffered: the poller waits in
  \<open>P_Send\<close> until a receiver takes the value. \<^verbatim>\<open>done\<close> likewise, with \<open>C_SendDone\<close>.
\<close>

record state =
  clock :: int
  deadline :: "int option"
  notify :: bool
  signalled :: bool
  status :: status
  mpc :: main_pc
  ppc :: poller_pc
  cpc :: coord_pc
  namespace :: string
  instance_id :: string
  pod_name :: string
  found_closed :: bool
  ticker :: "int option"
  tick_pending :: bool
  start :: int
  ops :: "(k8s_op \<times> k8s_result) list"
  out :: "line list"
  spans :: "span_ev list"

definition init :: "int \<Rightarrow> state" where
  "init t0 = \<lparr> clock = t0, deadline = None, notify = False, signalled = False,
       status = Running, mpc = M_Init, ppc = P_Idle, cpc = C_Idle,
       namespace = [], instance_id = [], pod_name = [], found_closed = False,
       ticker = None, tick_pending = False, start = 0, ops = [], out = [], spans = [] \<rparr>"

subsection \<open>Time, the context, the ticker\<close>

definition millisecond :: int where "millisecond = 1000000"

definition timeout :: int where "timeout = 5 * 60 * 1000 * millisecond"

definition interval :: int where "interval = 100 * millisecond"

text \<open>\<^verbatim>\<open>ctx.Done()\<close> is closed once the 5 minute timeout has passed or a signal came.\<close>

definition ctx_done :: "state \<Rightarrow> bool" where
  "ctx_done s = (signalled s \<or> (case deadline s of None \<Rightarrow> False | Some d \<Rightarrow> d \<le> clock s))"

text \<open>
  Time passes, \<open>d\<close> nanoseconds of it (the monotonic clock never goes back: a negative
  \<open>d\<close> is no event). A running ticker whose next tick is due puts a tick in its channel
  (dropped if one is still there) and schedules the next one.
\<close>

definition advance :: "int \<Rightarrow> state \<Rightarrow> state" where
  "advance d s =
     (if d < 0 then s
      else let c = clock s + d in
      case ticker s of
        None \<Rightarrow> s\<lparr>clock := c\<rparr>
      | Some t \<Rightarrow>
          if t \<le> c
          then s\<lparr>clock := c, tick_pending := True,
                 ticker := Some (t + ((c - t) div interval + 1) * interval)\<rparr>
          else s\<lparr>clock := c\<rparr>)"

definition signal :: "state \<Rightarrow> state" where
  "signal s = (if notify s then s\<lparr>signalled := True\<rparr> else s\<lparr>status := Killed\<rparr>)"

text \<open>
  A \<^verbatim>\<open>select\<close> between \<^verbatim>\<open>ctx.Done()\<close> and one other channel: blocked when neither is
  ready, the ready one when one is, the reply's choice when both are.
\<close>

datatype branch = Blocked | CtxDone | Other

definition select2 :: "bool \<Rightarrow> bool \<Rightarrow> bool \<Rightarrow> branch" where
  "select2 ctx_ready other_ready prefer =
     (if ctx_ready \<and> other_ready then (if prefer then CtxDone else Other)
      else if ctx_ready then CtxDone
      else if other_ready then Other
      else Blocked)"

text \<open>
  \<^verbatim>\<open>time.Since(start).Milliseconds()\<close>: a Duration is an int64 and the difference of two
  times saturates at its bounds; Go's integer division truncates towards zero.
\<close>

definition since :: "int \<Rightarrow> int \<Rightarrow> int" where
  "since t0 now = max (- 9223372036854775808) (min (now - t0) 9223372036854775807)"

definition milliseconds :: "int \<Rightarrow> int" where
  "milliseconds d = (if 0 \<le> d then d div millisecond else - ((- d) div millisecond))"

subsection \<open>Strings the program builds\<close>

definition probe_name :: "string \<Rightarrow> string" where
  "probe_name i = ''probe-'' @ i"

definition selector :: "string \<Rightarrow> string" where
  "selector i = ''probe-instance='' @ i"

definition label_patch :: "string \<Rightarrow> string" where
  "label_patch i = ''{\"metadata\":{\"labels\":{\"probe-instance\":\"'' @ i @ ''\"}}}''"

definition result_of :: "reply \<Rightarrow> k8s_result \<Rightarrow> k8s_result" where
  "result_of r ok = (case failure r of Some e \<Rightarrow> Failed e | None \<Rightarrow> ok)"


section \<open>The instrumented \<^verbatim>\<open>main\<close>\<close>

text \<open>
  A panic in the main goroutine runs its deferred calls (\<^verbatim>\<open>globalSpan.End\<close>, then the
  tracer provider's shutdown, which prints when it fails) and ends the process.
\<close>

definition shutdown_lines :: "reply \<Rightarrow> line list" where
  "shutdown_lines r = (case shutdown_failure r of None \<Rightarrow> [] | Some e \<Rightarrow> [FailedShutdown e])"

definition main_deferred :: "reply \<Rightarrow> state \<Rightarrow> state" where
  "main_deferred r s =
     s\<lparr>spans := spans s @ [SpanEnd ''prober.main'', ProviderShutdown],
       out := out s @ shutdown_lines r\<rparr>"

definition main_panic :: "reply \<Rightarrow> string \<Rightarrow> state \<Rightarrow> state" where
  "main_panic r e s = (main_deferred r s)\<lparr>status := Panicked e\<rparr>"

text \<open>
  Lines 30 to 60: the context with its timeout, the signal handler, OpenTelemetry, the
  client, the namespace and the instance token. Each \<^verbatim>\<open>must\<close> panics with the error.
\<close>

definition m1_init :: "penv \<Rightarrow> reply \<Rightarrow> state \<Rightarrow> state" where
  "m1_init pe r s =
     (let s1 = s\<lparr>deadline := Some (clock s + timeout), notify := True\<rparr> in
      case otel_exporter pe of
        Some e \<Rightarrow> s1\<lparr>status := Panicked (''failed to create OTLP trace exporter: '' @ e)\<rparr>
      | None \<Rightarrow>
      (case otel_resource pe of
        Some e \<Rightarrow> s1\<lparr>status := Panicked (''failed to create resource: '' @ e)\<rparr>
      | None \<Rightarrow>
      (let s2 = s1\<lparr>spans := spans s1 @ [SpanStart ''prober.main'']\<rparr> in
       case in_cluster_config pe of
         Some e \<Rightarrow> main_panic r e s2
       | None \<Rightarrow>
       (case new_for_config pe of
         Some e \<Rightarrow> main_panic r e s2
       | None \<Rightarrow>
       (case currentNamespace pe of
         Inl e \<Rightarrow> main_panic r e s2
       | Inr n \<Rightarrow>
       (case rand_err pe of
         Some e \<Rightarrow> main_panic r e s2
       | None \<Rightarrow>
           s2\<lparr>namespace := n, instance_id := new_instance pe,
              spans := spans s2 @ [SpanStart ''prober.create-pod'',
                        SpanAttr ''prober.create-pod'' ''instance'' (new_instance pe)],
              mpc := M_Create\<rparr>))))))"

text \<open>
  Lines 62 to 119: create the pod, print its name, start the poller goroutine, open the
  span of the update.
\<close>

definition m1_create :: "reply \<Rightarrow> state \<Rightarrow> state" where
  "m1_create r s =
     (let s1 = s\<lparr>ops := ops s @ [(Create (namespace s) (probe_name (instance_id s)),
                                   result_of r (Pod (pod r)))]\<rparr> in
      case failure r of
        Some e \<Rightarrow> main_panic r e s1
      | None \<Rightarrow>
          s1\<lparr>pod_name := pod r,
             out := out s1 @ [CreatedPod (pod r)],
             spans := spans s1 @ [SpanEnd ''prober.create-pod'', SpanStart ''prober.update-pod''],
             ppc := P_Start,
             mpc := M_Patch\<rparr>)"

text \<open>Lines 120 to 127: attach the label \<^verbatim>\<open>probe-instance\<close>.\<close>

definition m1_patch :: "reply \<Rightarrow> state \<Rightarrow> state" where
  "m1_patch r s =
     (let s1 = s\<lparr>ops := ops s @ [(Patch (namespace s) (pod_name s) (label_patch (instance_id s)),
                                   result_of r (Pod (pod r)))]\<rparr> in
      case failure r of
        Some e \<Rightarrow> main_panic r e s1
      | None \<Rightarrow> s1\<lparr>spans := spans s1 @ [SpanEnd ''prober.update-pod''], mpc := M_Select\<rparr>)"

text \<open>
  Lines 129 to 137: the race. \<^verbatim>\<open>found\<close> is ready when the poller waits to send (or
  the channel is closed); taking it lets the poller go on.
\<close>

definition m1_select :: "reply \<Rightarrow> state \<Rightarrow> state" where
  "m1_select r s =
     (case select2 (ctx_done s) (ppc s = P_Send \<or> found_closed s) (prefer_ctx r) of
        Blocked \<Rightarrow> s
      | Other \<Rightarrow>
          s\<lparr>ppc := (if ppc s = P_Send then P_Close else ppc s),
            spans := spans s @ [SpanStart ''prober.cleanup''],
            mpc := M_Delete\<rparr>
      | CtxDone \<Rightarrow>
          s\<lparr>out := out s @ [ContextDoneCleaningUp],
            spans := spans s @ [SpanStart ''prober.cleanup''],
            mpc := M_Delete\<rparr>)"

text \<open>Lines 139 to 145: delete the pod, panic if that fails, else print and return.\<close>

definition m1_delete :: "reply \<Rightarrow> state \<Rightarrow> state" where
  "m1_delete r s =
     (let s1 = s\<lparr>ops := ops s @ [(Delete (namespace s) (pod_name s), result_of r Deleted)]\<rparr> in
      case failure r of
        Some e \<Rightarrow> main_panic r e s1
      | None \<Rightarrow>
          (main_deferred r
             (s1\<lparr>out := out s1 @ [DeletedPod (pod_name s1)],
                 spans := spans s1 @ [SpanEnd ''prober.cleanup'']\<rparr>))
          \<lparr>status := Exited, mpc := M_Done\<rparr>)"

definition main1 :: "penv \<Rightarrow> reply \<Rightarrow> state \<Rightarrow> state" where
  "main1 pe r s =
     (case mpc s of
        M_Init \<Rightarrow> m1_init pe r s
      | M_Create \<Rightarrow> m1_create r s
      | M_Patch \<Rightarrow> m1_patch r s
      | M_Select \<Rightarrow> m1_select r s
      | M_Delete \<Rightarrow> m1_delete r s
      | M_Done \<Rightarrow> s)"

subsection \<open>The poller goroutine (lines 84 to 116)\<close>

text \<open>Open the span, start the ticker; the first query follows without a tick.\<close>

definition p1_start :: "state \<Rightarrow> state" where
  "p1_start s =
     s\<lparr>spans := spans s @ [SpanStart ''prober.wait-for-pod''],
       ticker := Some (clock s + interval),
       ppc := P_List\<rparr>"

text \<open>
  The query. An error panics: the goroutine's deferred calls run (\<^verbatim>\<open>ticker.Stop\<close>,
  \<^verbatim>\<open>span.End\<close>) and the process dies. A non-empty answer goes on to the send.
\<close>

definition p1_list :: "reply \<Rightarrow> state \<Rightarrow> state" where
  "p1_list r s =
     (let s1 = s\<lparr>ops := ops s @ [(ListPods (namespace s) (selector (instance_id s)),
                                   result_of r (Items (items r)))]\<rparr> in
      case failure r of
        Some e \<Rightarrow>
          s1\<lparr>ticker := None, spans := spans s1 @ [SpanEnd ''prober.wait-for-pod''],
             status := Panicked e\<rparr>
      | None \<Rightarrow>
          if 0 < length (items r)
          then s1\<lparr>spans := spans s1 @ [SpanAddEvent ''prober.wait-for-pod'' ''Pod found''],
                  ppc := P_Send\<rparr>
          else s1\<lparr>ppc := P_Wait\<rparr>)"

definition p1_wait :: "reply \<Rightarrow> state \<Rightarrow> state" where
  "p1_wait r s =
     (case select2 (ctx_done s) (tick_pending s) (prefer_ctx r) of
        Blocked \<Rightarrow> s
      | CtxDone \<Rightarrow>
          s\<lparr>spans := spans s @ [SpanError ''prober.wait-for-pod'' ''context deadline exceeded'',
                                SpanEnd ''prober.wait-for-pod''],
            out := out s @ [ContextDoneExiting],
            ticker := None,
            ppc := P_Done\<rparr>
      | Other \<Rightarrow> s\<lparr>tick_pending := False, ppc := P_List\<rparr>)"

text \<open>After the send: \<^verbatim>\<open>close(found)\<close>, return (the deferred calls run).\<close>

definition p1_close :: "state \<Rightarrow> state" where
  "p1_close s =
     s\<lparr>found_closed := True, ticker := None,
       spans := spans s @ [SpanEnd ''prober.wait-for-pod''],
       ppc := P_Done\<rparr>"

definition poller1 :: "reply \<Rightarrow> state \<Rightarrow> state" where
  "poller1 r s =
     (case ppc s of
        P_Idle \<Rightarrow> s
      | P_Start \<Rightarrow> p1_start s
      | P_List \<Rightarrow> p1_list r s
      | P_Wait \<Rightarrow> p1_wait r s
      | P_Send \<Rightarrow> s
      | P_Close \<Rightarrow> p1_close s
      | P_Done \<Rightarrow> s)"

subsection \<open>Steps and runs\<close>

text \<open>A process that has ended does nothing more.\<close>

definition step1 :: "penv \<Rightarrow> state \<Rightarrow> event \<Rightarrow> state" where
  "step1 pe s ev =
     (if status s \<noteq> Running then s
      else case ev of
        Advance d \<Rightarrow> advance d s
      | Signal \<Rightarrow> signal s
      | Step Main r \<Rightarrow> main1 pe r s
      | Step Poller r \<Rightarrow> poller1 r s
      | Step Coordinator r \<Rightarrow> s)"

definition run1 :: "penv \<Rightarrow> event list \<Rightarrow> state \<Rightarrow> state" where
  "run1 pe evs s = foldl (step1 pe) s evs"

section \<open>The uninstrumented \<^verbatim>\<open>main\<close>\<close>

text \<open>No deferred call of this version prints or calls out: a panic just ends the process.\<close>

definition m2_init :: "penv \<Rightarrow> state \<Rightarrow> state" where
  "m2_init pe s =
     (let s1 = s\<lparr>deadline := Some (clock s + timeout), notify := True\<rparr> in
      case in_cluster_config pe of
        Some e \<Rightarrow> s1\<lparr>status := Panicked e\<rparr>
      | None \<Rightarrow>
      (case new_for_config pe of
        Some e \<Rightarrow> s1\<lparr>status := Panicked e\<rparr>
      | None \<Rightarrow>
      (case rand_err pe of
        Some e \<Rightarrow> s1\<lparr>status := Panicked e\<rparr>
      | None \<Rightarrow> s1\<lparr>instance_id := new_instance pe, mpc := M_Create\<rparr>)))"

text \<open>Lines 241 to 309: create in \<^verbatim>\<open>"default"\<close>, start the poller and the coordinator.\<close>

definition m2_create :: "reply \<Rightarrow> state \<Rightarrow> state" where
  "m2_create r s =
     (let s1 = s\<lparr>ops := ops s @ [(Create ''default'' (probe_name (instance_id s)),
                                   result_of r (Pod (pod r)))]\<rparr> in
      case failure r of
        Some e \<Rightarrow> s1\<lparr>status := Panicked e\<rparr>
      | None \<Rightarrow>
          s1\<lparr>pod_name := pod r,
             out := out s1 @ [CreatedPod (pod r)],
             ppc := P_Start,
             cpc := C_Start,
             mpc := M_Patch\<rparr>)"

definition m2_patch :: "reply \<Rightarrow> state \<Rightarrow> state" where
  "m2_patch r s =
     (let s1 = s\<lparr>ops := ops s @ [(Patch ''default'' (pod_name s) (label_patch (instance_id s)),
                                   result_of r (Pod (pod r)))]\<rparr> in
      case failure r of
        Some e \<Rightarrow> s1\<lparr>status := Panicked e\<rparr>
      | None \<Rightarrow> s1\<lparr>mpc := M_Select\<rparr>)"

text \<open>
  Lines 320 to 327: wait for \<^verbatim>\<open>done\<close> or for the context, print, return. \<^verbatim>\<open>done\<close> is
  ready when the coordinator waits to send on it.
\<close>

definition m2_select :: "reply \<Rightarrow> state \<Rightarrow> state" where
  "m2_select r s =
     (case select2 (ctx_done s) (cpc s = C_SendDone) (prefer_ctx r) of
        Blocked \<Rightarrow> s
      | Other \<Rightarrow>
          s\<lparr>cpc := C_Done, out := out s @ [ContextDoneExiting],
            status := Exited, mpc := M_Done\<rparr>
      | CtxDone \<Rightarrow>
          s\<lparr>out := out s @ [ContextDoneExiting], status := Exited, mpc := M_Done\<rparr>)"

definition main2 :: "penv \<Rightarrow> reply \<Rightarrow> state \<Rightarrow> state" where
  "main2 pe r s =
     (case mpc s of
        M_Init \<Rightarrow> m2_init pe s
      | M_Create \<Rightarrow> m2_create r s
      | M_Patch \<Rightarrow> m2_patch r s
      | M_Select \<Rightarrow> m2_select r s
      | M_Delete \<Rightarrow> s
      | M_Done \<Rightarrow> s)"

subsection \<open>The poller goroutine (lines 262 to 288)\<close>

text \<open>Here every query waits for a tick first.\<close>

definition p2_start :: "state \<Rightarrow> state" where
  "p2_start s = s\<lparr>ticker := Some (clock s + interval), ppc := P_Wait\<rparr>"

definition p2_wait :: "reply \<Rightarrow> state \<Rightarrow> state" where
  "p2_wait r s =
     (case select2 (ctx_done s) (tick_pending s) (prefer_ctx r) of
        Blocked \<Rightarrow> s
      | CtxDone \<Rightarrow> s\<lparr>out := out s @ [ContextDoneExiting], ticker := None, ppc := P_Done\<rparr>
      | Other \<Rightarrow> s\<lparr>tick_pending := False, ppc := P_List\<rparr>)"

definition p2_list :: "reply \<Rightarrow> state \<Rightarrow> state" where
  "p2_list r s =
     (let s1 = s\<lparr>ops := ops s @ [(ListPods ''default'' (selector (instance_id s)),
                                   result_of r (Items (items r)))]\<rparr> in
      case failure r of
        Some e \<Rightarrow> s1\<lparr>ticker := None, status := Panicked e\<rparr>
      | None \<Rightarrow>
          if 0 < length (items r) then s1\<lparr>ppc := P_Send\<rparr> else s1\<lparr>ppc := P_Wait\<rparr>)"

definition p2_close :: "state \<Rightarrow> state" where
  "p2_close s = s\<lparr>found_closed := True, ticker := None, ppc := P_Done\<rparr>"

definition poller2 :: "reply \<Rightarrow> state \<Rightarrow> state" where
  "poller2 r s =
     (case ppc s of
        P_Idle \<Rightarrow> s
      | P_Start \<Rightarrow> p2_start s
      | P_List \<Rightarrow> p2_list r s
      | P_Wait \<Rightarrow> p2_wait r s
      | P_Send \<Rightarrow> s
      | P_Close \<Rightarrow> p2_close s
      | P_Done \<Rightarrow> s)"

subsection \<open>The coordinator goroutine (lines 291 to 309)\<close>

definition c2_start :: "state \<Rightarrow> state" where
  "c2_start s = s\<lparr>start := clock s, cpc := C_Select\<rparr>"

text \<open>
  The race. On \<^verbatim>\<open>ctx.Done()\<close> the goroutine prints and returns. On \<^verbatim>\<open>found\<close> it prints
  the latency and goes on to the delete.
\<close>

definition c2_select :: "reply \<Rightarrow> state \<Rightarrow> state" where
  "c2_select r s =
     (case select2 (ctx_done s) (ppc s = P_Send \<or> found_closed s) (prefer_ctx r) of
        Blocked \<Rightarrow> s
      | CtxDone \<Rightarrow> s\<lparr>out := out s @ [DeadlineExpired], cpc := C_Done\<rparr>
      | Other \<Rightarrow>
          s\<lparr>ppc := (if ppc s = P_Send then P_Close else ppc s),
            out := out s @ [PodFoundLatency (milliseconds (since (start s) (clock s))),
                           DeletingPod],
            cpc := C_Delete\<rparr>)"

definition c2_delete :: "reply \<Rightarrow> state \<Rightarrow> state" where
  "c2_delete r s =
     (let s1 = s\<lparr>ops := ops s @ [(Delete ''default'' (pod_name s), result_of r Deleted)]\<rparr> in
      case failure r of
        Some e \<Rightarrow> s1\<lparr>status := Panicked e\<rparr>
      | None \<Rightarrow> s1\<lparr>out := out s1 @ [DeletedPod (pod_name s1)], cpc := C_SendDone\<rparr>)"

definition coordinator2 :: "reply \<Rightarrow> state \<Rightarrow> state" where
  "coordinator2 r s =
     (case cpc s of
        C_Idle \<Rightarrow> s
      | C_Start \<Rightarrow> c2_start s
      | C_Select \<Rightarrow> c2_select r s
      | C_Delete \<Rightarrow> c2_delete r s
      | C_SendDone \<Rightarrow> s
      | C_Done \<Rightarrow> s)"

definition step2 :: "penv \<Rightarrow> state \<Rightarrow> event \<Rightarrow> state" where
  "step2 pe s ev =
     (if status s \<noteq> Running then s
      else case ev of
        Advance d \<Rightarrow> advance d s
      | Signal \<Rightarrow> signal s
      | Step Main r \<Rightarrow> main2 pe r s
      | Step Poller r \<Rightarrow> poller2 r s
      | Step Coordinator r \<Rightarrow> coordinator2 r s)"

definition run2 :: "penv \<Rightarrow> event list \<Rightarrow> state \<Rightarrow> state" where
  "run2 pe evs s = foldl (step2 pe) s evs"


section \<open>What a run shows\<close>

fun is_list :: "k8s_op \<Rightarrow> bool" where
  "is_list (ListPods n l) = True"
| "is_list _ = False"

fun is_patch :: "k8s_op \<Rightarrow> bool" where
  "is_patch (Patch n p b) = True"
| "is_patch _ = False"

fun is_delete :: "k8s_op \<Rightarrow> bool" where
  "is_delete (Delete n p) = True"
| "is_delete _ = False"

fun op_namespace :: "k8s_op \<Rightarrow> string" where
  "op_namespace (Create n p) = n"
| "op_namespace (ListPods n l) = n"
| "op_namespace (Patch n p b) = n"
| "op_namespace (Delete n p) = n"

text \<open>
  The API operations of a trace \<^term>\<open>ops s\<close>, in the order they were issued, and those of
  one kind.
\<close>

definition calls :: "(k8s_op \<times> k8s_result) list \<Rightarrow> k8s_op list" where
  "calls cs = map fst cs"

definition delete_calls :: "(k8s_op \<times> k8s_result) list \<Rightarrow> k8s_op list" where
  "delete_calls cs = filter is_delete (map fst cs)"

definition patch_calls :: "(k8s_op \<times> k8s_result) list \<Rightarrow> k8s_op list" where
  "patch_calls cs = filter is_patch (map fst cs)"

definition list_calls :: "(k8s_op \<times> k8s_result) list \<Rightarrow> (k8s_op \<times> k8s_result) list" where
  "list_calls cs = filter (\<lambda>c. is_list (fst c)) cs"

text \<open>A list query that answered with at least one pod (\<^verbatim>\<open>len(pods.Items) > 0\<close>).\<close>

fun found_pods :: "k8s_op \<times> k8s_result \<Rightarrow> bool" where
  "found_pods (ListPods n l, Items xs) = (0 < length xs)"
| "found_pods _ = False"

definition found_calls :: "(k8s_op \<times> k8s_result) list \<Rightarrow> (k8s_op \<times> k8s_result) list" where
  "found_calls cs = filter found_pods cs"

text \<open>The latency values printed.\<close>

fun latency_of :: "line \<Rightarrow> int list" where
  "latency_of (PodFoundLatency l) = [l]"
| "latency_of _ = []"

definition latencies :: "line list \<Rightarrow> int list" where
  "latencies ls = concat (map latency_of ls)"

section \<open>A cluster and some schedules to run the program on\<close>

text \<open>
  An environment in which start-up succeeds: the override variable holds \<open>ov\<close>, the
  namespace file answers \<open>f\<close>, the random bytes are 3, 20, 37, ...
\<close>

definition cluster :: "string \<Rightarrow> string + string \<Rightarrow> penv" where
  "cluster ov f =
     \<lparr> otel_exporter = None, otel_resource = None, in_cluster_config = None,
       new_for_config = None,
       getenv = (\<lambda>k. if k = ''K8S_NAMESPACE_NAME'' then ov else []),
       read_file = (\<lambda>p. if p = namespace_file then f else Inl ''no such file or directory''),
       rand_err = None,
       rand_byte = (\<lambda>i. of_nat (17 * i + 3)) \<rparr>"

definition probes :: penv where
  "probes = cluster ''probes'' (Inr ''kube-system'')"

text \<open>
  Replies: the call succeeds (Create answers with the pod it was asked for, List with no
  pod, a \<^verbatim>\<open>select\<close> with both cases ready takes the channel); the call fails; List
  finds the pod; a \<^verbatim>\<open>select\<close> with both cases ready takes \<^verbatim>\<open>ctx.Done()\<close>.
\<close>

definition ok :: reply where
  "ok = \<lparr> failure = None, pod = ''probe-031425364758697a'', items = [],
          prefer_ctx = False, shutdown_failure = None \<rparr>"

definition failing :: "string \<Rightarrow> reply" where
  "failing e = ok\<lparr>failure := Some e\<rparr>"

definition finding :: reply where
  "finding = ok\<lparr>items := [''probe-031425364758697a'']\<rparr>"

definition cancelled :: reply where
  "cancelled = ok\<lparr>prefer_ctx := True\<rparr>"

text \<open>The instrumented main has created and labelled the pod and waits in its race.\<close>

definition racing1 :: "event list" where
  "racing1 = [Step Main ok, Step Main ok, Step Poller ok, Step Poller ok, Step Main ok]"

text \<open>
  The second query, one tick later, finds the pod; main takes the signal, the poller
  returns, and main is about to delete the pod.
\<close>

definition found1 :: "event list" where
  "found1 = racing1 @ [Advance 100000000, Step Poller ok, Step Poller finding,
                       Step Main ok, Step Poller ok]"

text \<open>No query finds the pod and the five minutes pass.\<close>

definition expired1 :: "event list" where
  "expired1 = racing1 @ [Advance 300000000000]"

text \<open>
  A signal cancels the context while a tick is pending; the poller's \<^verbatim>\<open>select\<close>
  takes the tick, and the query of the cancelled context fails.
\<close>

definition cancelled_query1 :: "event list" where
  "cancelled_query1 = racing1 @ [Advance 100000000, Signal, Step Poller ok,
                                 Step Poller (failing ''context canceled'')]"

text \<open>
  The first query finds the pod while main is still in its Patch call; before main
  reaches its \<^verbatim>\<open>select\<close> a signal cancels the context, and the \<^verbatim>\<open>select\<close>, with both
  cases ready, takes \<^verbatim>\<open>ctx.Done()\<close>.
\<close>

definition leak1 :: "event list" where
  "leak1 = [Step Main ok, Step Main ok, Step Poller ok, Step Poller finding, Step Main ok,
            Signal, Step Main cancelled]"

text \<open>
  The uninstrumented main: the pod is created and labelled, all three goroutines wait.
\<close>

definition racing2 :: "event list" where
  "racing2 = [Step Main ok, Step Main ok, Step Poller ok, Step Coordinator ok, Step Main ok]"

text \<open>The first query, at the first tick, finds the pod; 42.5 ms later the coordinator runs.\<close>

definition found2 :: "event list" where
  "found2 = racing2 @ [Advance 100000000, Step Poller ok, Step Poller finding,
                       Advance 42500000]"

text \<open>No query is made before the five minutes have passed.\<close>

definition expired2 :: "event list" where
  "expired2 = racing2 @ [Advance 300000000000]"

text \<open>
  The query at the first tick finds the pod; a signal cancels the context before the
  coordinator reaches its \<^verbatim>\<open>select\<close>, which takes \<^verbatim>\<open>ctx.Done()\<close>.
\<close>

definition leak2 :: "event list" where
  "leak2 = [Step Main ok, Step Main ok, Step Poller ok, Advance 100000000, Step Poller ok,
            Step Poller finding, Step Coordinator ok, Signal, Step Coordinator cancelled]"

text \<open>A tick later the poller queries again, and the query fails.\<close>

definition failed_query :: "event list" where
  "failed_query = [Advance 100000000, Step Poller ok, Step Poller (failing ''connection refused'')]"

text \<open>
  A schedule for both versions (the instrumented main has no coordinator: its steps do
  nothing there): no query finds the pod, the five minutes pass, every goroutine is
  scheduled again.
\<close>

definition timing_out :: "event list" where
  "timing_out = [Step Main ok, Step Main ok, Step Poller ok, Step Poller ok, Step Coordinator ok,
                 Step Main ok, Advance 300000000000, Step Coordinator ok, Step Main ok,
                 Step Main ok]"

section \<open>The shape of a trace\<close>

text \<open>
  The operations of a probe run in namespace \<open>n\<close>, with token \<open>i\<close>, whose create
  returned the pod \<open>p\<close>: first the create, then list queries, at most one patch and at
  most one delete.
\<close>

definition probe_trace :: "string \<Rightarrow> string \<Rightarrow> string \<Rightarrow> k8s_op list \<Rightarrow> bool" where
  "probe_trace n i p cs =
     (case cs of
        [] \<Rightarrow> True
      | c # ds \<Rightarrow>
          c = Create n (probe_name i) \<and>
          list_all (\<lambda>d. d = ListPods n (selector i) \<or> d = Patch n p (label_patch i) \<or>
                        d = Delete n p) ds \<and>
          length (filter is_patch ds) \<le> 1 \<and>
          length (filter is_delete ds) \<le> 1)"

section \<open>Invariants\<close>

text \<open>
  The trace of the instrumented main starts with the create; after it come only the
  list query, the patch and the delete of this run.
\<close>

definition shape1 :: "state \<Rightarrow> bool" where
  "shape1 s =
     ((mpc s = M_Init \<longrightarrow> ops s = [] \<and> ppc s = P_Idle) \<and>
      (mpc s = M_Create \<longrightarrow> ppc s = P_Idle \<and> (status s = Running \<longrightarrow> ops s = [])) \<and>
      (mpc s \<noteq> M_Init \<and> mpc s \<noteq> M_Create \<longrightarrow>
         ops s \<noteq> [] \<and> snd (hd (ops s)) = Pod (pod_name s)) \<and>
      (ops s \<noteq> [] \<longrightarrow> fst (hd (ops s)) = Create (namespace s) (probe_name (instance_id s))) \<and>
      list_all (\<lambda>c. fst c = ListPods (namespace s) (selector (instance_id s)) \<or>
                    fst c = Patch (namespace s) (pod_name s) (label_patch (instance_id s)) \<or>
                    fst c = Delete (namespace s) (pod_name s)) (tl (ops s)))"

definition shape2 :: "state \<Rightarrow> bool" where
  "shape2 s =
     ((mpc s = M_Init \<longrightarrow> ops s = [] \<and> ppc s = P_Idle \<and> cpc s = C_Idle) \<and>
      (mpc s = M_Create \<longrightarrow>
         ppc s = P_Idle \<and> cpc s = C_Idle \<and> (status s = Running \<longrightarrow> ops s = [])) \<and>
      (mpc s \<noteq> M_Init \<and> mpc s \<noteq> M_Create \<longrightarrow>
         ops s \<noteq> [] \<and> snd (hd (ops s)) = Pod (pod_name s)) \<and>
      (ops s \<noteq> [] \<longrightarrow> fst (hd (ops s)) = Create ''default'' (probe_name (instance_id s))) \<and>
      list_all (\<lambda>c. fst c = ListPods ''default'' (selector (instance_id s)) \<or>
                    fst c = Patch ''default'' (pod_name s) (label_patch (instance_id s)) \<or>
                    fst c = Delete ''default'' (pod_name s)) (tl (ops s)))"

text \<open>Past start-up, the namespace and the token are what the environment gave.\<close>

definition resolved1 :: "penv \<Rightarrow> state \<Rightarrow> bool" where
  "resolved1 pe s =
     (mpc s \<noteq> M_Init \<longrightarrow>
         currentNamespace pe = Inr (namespace s) \<and> instance_id s = new_instance pe)"

definition resolved2 :: "penv \<Rightarrow> state \<Rightarrow> bool" where
  "resolved2 pe s = (mpc s \<noteq> M_Init \<longrightarrow> instance_id s = new_instance pe)"

text \<open>
  The instrumented main: no delete while the process runs, exactly one when it has
  returned; at most one patch; no latency line.
\<close>

definition once1 :: "state \<Rightarrow> bool" where
  "once1 s =
     ((status s = Running \<longrightarrow> delete_calls (ops s) = [] \<and> mpc s \<noteq> M_Done) \<and>
      (status s = Exited \<longrightarrow>
         delete_calls (ops s) = [Delete (namespace s) (pod_name s)] \<and> mpc s = M_Done) \<and>
      (delete_calls (ops s) = [] \<or> delete_calls (ops s) = [Delete (namespace s) (pod_name s)]) \<and>
      (status s \<noteq> Exited \<and> mpc s \<noteq> M_Delete \<longrightarrow> delete_calls (ops s) = []) \<and>
      (status s = Running \<and> (mpc s = M_Init \<or> mpc s = M_Create \<or> mpc s = M_Patch)
         \<longrightarrow> patch_calls (ops s) = []) \<and>
      length (patch_calls (ops s)) \<le> 1 \<and>
      latencies (out s) = [])"

text \<open>
  The uninstrumented main: the coordinator deletes only after it printed the one
  latency line, and it prints none once it has reported the deadline.
\<close>

definition once2 :: "state \<Rightarrow> bool" where
  "once2 s =
     ((mpc s = M_Init \<or> mpc s = M_Create \<longrightarrow> cpc s = C_Idle) \<and>
      (cpc s = C_Idle \<or> cpc s = C_Start \<or> cpc s = C_Select \<longrightarrow>
         delete_calls (ops s) = [] \<and> latencies (out s) = [] \<and> DeadlineExpired \<notin> set (out s)) \<and>
      (cpc s = C_Delete \<and> status s = Running \<longrightarrow> delete_calls (ops s) = []) \<and>
      (delete_calls (ops s) = [] \<or> delete_calls (ops s) = [Delete ''default'' (pod_name s)]) \<and>
      (delete_calls (ops s) \<noteq> [] \<longrightarrow> length (latencies (out s)) = 1) \<and>
      (cpc s = C_Delete \<or> cpc s = C_SendDone \<longrightarrow>
         length (latencies (out s)) = 1 \<and> DeadlineExpired \<notin> set (out s)) \<and>
      (DeadlineExpired \<in> set (out s) \<longrightarrow> latencies (out s) = [] \<and> delete_calls (ops s) = []) \<and>
      length (latencies (out s)) \<le> 1 \<and>
      (status s = Running \<and> (mpc s = M_Init \<or> mpc s = M_Create \<or> mpc s = M_Patch)
         \<longrightarrow> patch_calls (ops s) = []) \<and>
      length (patch_calls (ops s)) \<le> 1)"

text \<open>No query has found a pod while the poller still polls; only the last query can.\<close>

definition polled :: "state \<Rightarrow> bool" where
  "polled s =
     ((mpc s = M_Init \<or> mpc s = M_Create \<longrightarrow> ppc s = P_Idle) \<and>
      (ppc s = P_Idle \<or> ppc s = P_Start \<or> ppc s = P_List \<or> ppc s = P_Wait
         \<longrightarrow> found_calls (ops s) = []) \<and>
      found_calls (butlast (list_calls (ops s))) = [])"

text \<open>The poller has stopped polling: the list queries stay what they are.\<close>

definition stopped :: "(k8s_op \<times> k8s_result) list \<Rightarrow> state \<Rightarrow> bool" where
  "stopped qs s =
     (mpc s \<noteq> M_Init \<and> mpc s \<noteq> M_Create \<and>
      (ppc s = P_Send \<or> ppc s = P_Close \<or> ppc s = P_Done) \<and> list_calls (ops s) = qs)"

text \<open>The poller waits to send and its receiver is gone.\<close>

definition leaked1 :: "state \<Rightarrow> bool" where
  "leaked1 s = (ppc s = P_Send \<and> (mpc s = M_Delete \<or> mpc s = M_Done))"

definition leaked2 :: "state \<Rightarrow> bool" where
  "leaked2 s = (ppc s = P_Send \<and> cpc s = C_Done \<and> mpc s \<noteq> M_Init \<and> mpc s \<noteq> M_Create)"

text \<open>
  The clock of the uninstrumented main: the context was made before the coordinator
  took \<open>start\<close>, and \<open>start\<close> is in the past.
\<close>

definition timed2 :: "state \<Rightarrow> bool" where
  "timed2 s =
     ((mpc s = M_Init \<or> mpc s = M_Create \<longrightarrow> cpc s = C_Idle) \<and>
      (mpc s \<noteq> M_Init \<longrightarrow> deadline s \<noteq> None) \<and>
      (deadline s \<noteq> None \<longrightarrow> the (deadline s) - timeout \<le> clock s) \<and>
      (cpc s \<noteq> C_Idle \<and> cpc s \<noteq> C_Start \<longrightarrow>
         the (deadline s) - timeout \<le> start s \<and> start s \<le> clock s) \<and>
      list_all (\<lambda>l. 0 \<le> l) (latencies (out s)))"

section \<open>Runs, step by step\<close>

lemma run1_Nil [simp]: "run1 pe [] s = s"
  by (simp add: run1_def)

lemma run1_Cons: "run1 pe (ev # evs) s = run1 pe evs (step1 pe s ev)"
  by (simp add: run1_def)

lemma run1_append: "run1 pe (evs @ evs') s = run1 pe evs' (run1 pe evs s)"
  by (simp add: run1_def)

lemma run2_Nil [simp]: "run2 pe [] s = s"
  by (simp add: run2_def)

lemma run2_Cons: "run2 pe (ev # evs) s = run2 pe evs (step2 pe s ev)"
  by (simp add: run2_def)

lemma run2_append: "run2 pe (evs @ evs') s = run2 pe evs' (run2 pe evs s)"
  by (simp add: run2_def)

lemma step1_dead: "status s \<noteq> Running \<Longrightarrow> step1 pe s ev = s"
  by (simp add: step1_def)

lemma step2_dead: "status s \<noteq> Running \<Longrightarrow> step2 pe s ev = s"
  by (simp add: step2_def)

lemma run1_dead: "status s \<noteq> Running \<Longrightarrow> run1 pe evs s = s"
  by (induction evs) (simp_all add: run1_Cons step1_dead)

lemma run2_dead: "status s \<noteq> Running \<Longrightarrow> run2 pe evs s = s"
  by (induction evs) (simp_all add: run2_Cons step2_dead)

text \<open>
  To show that a step keeps a property it is enough to look at each statement block of
  each goroutine, in a process that is running.
\<close>

lemma step1_preserves:
  assumes "P s"
    and "\<And>d. status s = Running \<Longrightarrow> P s \<Longrightarrow> P (advance d s)"
    and "status s = Running \<Longrightarrow> P s \<Longrightarrow> P (signal s)"
    and "\<And>r. status s = Running \<Longrightarrow> mpc s = M_Init \<Longrightarrow> P s \<Longrightarrow> P (m1_init pe r s)"
    and "\<And>r. status s = Running \<Longrightarrow> mpc s = M_Create \<Longrightarrow> P s \<Longrightarrow> P (m1_create r s)"
    and "\<And>r. status s = Running \<Longrightarrow> mpc s = M_Patch \<Longrightarrow> P s \<Longrightarrow> P (m1_patch r s)"
    and "\<And>r. status s = Running \<Longrightarrow> mpc s = M_Select \<Longrightarrow> P s \<Longrightarrow> P (m1_select r s)"
    and "\<And>r. status s = Running \<Longrightarrow> mpc s = M_Delete \<Longrightarrow> P s \<Longrightarrow> P (m1_delete r s)"
    and "status s = Running \<Longrightarrow> ppc s = P_Start \<Longrightarrow> P s \<Longrightarrow> P (p1_start s)"
    and "\<And>r. status s = Running \<Longrightarrow> ppc s = P_List \<Longrightarrow> P s \<Longrightarrow> P (p1_list r s)"
    and "\<And>r. status s = Running \<Longrightarrow> ppc s = P_Wait \<Longrightarrow> P s \<Longrightarrow> P (p1_wait r s)"
    and "status s = Running \<Longrightarrow> ppc s = P_Close \<Longrightarrow> P s \<Longrightarrow> P (p1_close s)"
  shows "P (step1 pe s ev)"
proof (cases "status s = Running")
  case False
  with assms(1) show ?thesis by (simp add: step1_def)
next
  case True
  show ?thesis
  proof (cases ev)
    case (Advance d)
    with True assms(1,2) show ?thesis by (simp add: step1_def)
  next
    case Signal
    with True assms(1,3) show ?thesis by (simp add: step1_def)
  next
    case (Step t r)
    show ?thesis
    proof (cases t)
      case Main
      with Step True assms(1,4-8) show ?thesis
        by (cases "mpc s") (simp_all add: step1_def main1_def)
    next
      case Poller
      with Step True assms(1,9-12) show ?thesis
        by (cases "ppc s") (simp_all add: step1_def poller1_def)
    next
      case Coordinator
      with Step True assms(1) show ?thesis by (simp add: step1_def)
    qed
  qed
qed

lemma step2_preserves:
  assumes "P s"
    and "\<And>d. status s = Running \<Longrightarrow> P s \<Longrightarrow> P (advance d s)"
    and "status s = Running \<Longrightarrow> P s \<Longrightarrow> P (signal s)"
    and "status s = Running \<Longrightarrow> mpc s = M_Init \<Longrightarrow> P s \<Longrightarrow> P (m2_init pe s)"
    and "\<And>r. status s = Running \<Longrightarrow> mpc s = M_Create \<Longrightarrow> P s \<Longrightarrow> P (m2_create r s)"
    and "\<And>r. status s = Running \<Longrightarrow> mpc s = M_Patch \<Longrightarrow> P s \<Longrightarrow> P (m2_patch r s)"
    and "\<And>r. status s = Running \<Longrightarrow> mpc s = M_Select \<Longrightarrow> P s \<Longrightarrow> P (m2_select r s)"
    and "status s = Running \<Longrightarrow> ppc s = P_Start \<Longrightarrow> P s \<Longrightarrow> P (p2_start s)"
    and "\<And>r. status s = Running \<Longrightarrow> ppc s = P_List \<Longrightarrow> P s \<Longrightarrow> P (p2_list r s)"
    and "\<And>r. status s = Running \<Longrightarrow> ppc s = P_Wait \<Longrightarrow> P s \<Longrightarrow> P (p2_wait r s)"
    and "status s = Running \<Longrightarrow> ppc s = P_Close \<Longrightarrow> P s \<Longrightarrow> P (p2_close s)"
    and "status s = Running \<Longrightarrow> cpc s = C_Start \<Longrightarrow> P s \<Longrightarrow> P (c2_start s)"
    and "\<And>r. status s = Running \<Longrightarrow> cpc s = C_Select \<Longrightarrow> P s \<Longrightarrow> P (c2_select r s)"
    and "\<And>r. status s = Running \<Longrightarrow> cpc s = C_Delete \<Longrightarrow> P s \<Longrightarrow> P (c2_delete r s)"
  shows "P (step2 pe s ev)"
proof (cases "status s = Running")
  case False
  with assms(1) show ?thesis by (simp add: step2_def)
next
  case True
  show ?thesis
  proof (cases ev)
    case (Advance d)
    with True assms(1,2) show ?thesis by (simp add: step2_def)
  next
    case Signal
    with True assms(1,3) show ?thesis by (simp add: step2_def)
  next
    case (Step t r)
    show ?thesis
    proof (cases t)
      case Main
      with Step True assms(1,4-7) show ?thesis
        by (cases "mpc s") (simp_all add: step2_def main2_def)
    next
      case Poller
      with Step True assms(1,8-11) show ?thesis
        by (cases "ppc s") (simp_all add: step2_def poller2_def)
    next
      case Coordinator
      with Step True assms(1,12-14) show ?thesis
        by (cases "cpc s") (simp_all add: step2_def coordinator2_def)
    qed
  qed
qed

lemma run1_invariant:
  assumes "P s" and "\<And>s ev. P s \<Longrightarrow> P (step1 pe s ev)"
  shows "P (run1 pe evs s)"
  using assms(1)
proof (induction evs arbitrary: s)
  case Nil
  then show ?case by simp
next
  case (Cons ev evs)
  then show ?case by (simp add: run1_Cons run2_Cons assms(2))
qed

lemma run2_invariant:
  assumes "P s" and "\<And>s ev. P s \<Longrightarrow> P (step2 pe s ev)"
  shows "P (run2 pe evs s)"
  using assms(1)
proof (induction evs arbitrary: s)
  case Nil
  then show ?case by simp
next
  case (Cons ev evs)
  then show ?case by (simp add: run1_Cons run2_Cons assms(2))
qed

subsection \<open>Observations of a trace that grows\<close>

lemma calls_simps [simp]:
  "calls [] = []"
  "calls (cs @ ds) = calls cs @ calls ds"
  "calls (c # cs) = fst c # calls cs"
  by (simp_all add: calls_def)

lemma delete_calls_simps [simp]:
  "delete_calls [] = []"
  "delete_calls (cs @ ds) = delete_calls cs @ delete_calls ds"
  "delete_calls (c # cs) = (if is_delete (fst c) then fst c # delete_calls cs else delete_calls cs)"
  by (simp_all add: delete_calls_def)

lemma patch_calls_simps [simp]:
  "patch_calls [] = []"
  "patch_calls (cs @ ds) = patch_calls cs @ patch_calls ds"
  "patch_calls (c # cs) = (if is_patch (fst c) then fst c # patch_calls cs else patch_calls cs)"
  by (simp_all add: patch_calls_def)

lemma list_calls_simps [simp]:
  "list_calls [] = []"
  "list_calls (cs @ ds) = list_calls cs @ list_calls ds"
  "list_calls (c # cs) = (if is_list (fst c) then c # list_calls cs else list_calls cs)"
  by (simp_all add: list_calls_def)

lemma found_calls_simps [simp]:
  "found_calls [] = []"
  "found_calls (cs @ ds) = found_calls cs @ found_calls ds"
  "found_calls (c # cs) = (if found_pods c then c # found_calls cs else found_calls cs)"
  by (simp_all add: found_calls_def)

lemma found_pods_list: "found_pods c \<Longrightarrow> is_list (fst c)"
  by (cases c rule: found_pods.cases) simp_all

lemma found_calls_list_calls [simp]: "found_calls (list_calls cs) = found_calls cs"
  by (induction cs) (auto dest: found_pods_list)

lemma latencies_simps [simp]:
  "latencies [] = []"
  "latencies (ls @ ms) = latencies ls @ latencies ms"
  "latencies (l # ls) = latency_of l @ latencies ls"
  by (simp_all add: latencies_def)

lemma latencies_shutdown_lines [simp]: "latencies (shutdown_lines r) = []"
  by (simp add: shutdown_lines_def split: option.splits)

lemmas blocks1 = advance_def signal_def m1_init_def m1_create_def m1_patch_def m1_select_def
  m1_delete_def main_panic_def main_deferred_def p1_start_def p1_list_def p1_wait_def
  p1_close_def result_of_def Let_def

lemmas blocks2 = advance_def signal_def m2_init_def m2_create_def m2_patch_def m2_select_def
  p2_start_def p2_list_def p2_wait_def p2_close_def c2_start_def c2_select_def c2_delete_def
  result_of_def Let_def


subsection \<open>The invariants hold in every run\<close>

lemma select2_OtherD: "select2 c x p = Other \<Longrightarrow> x"
  by (simp add: select2_def split: if_splits)

lemma since_nonneg:
  assumes "t0 \<le> now"
  shows "0 \<le> milliseconds (since t0 now)"
proof -
  from assms have "0 \<le> since t0 now" by (simp add: since_def)
  then show ?thesis by (simp add: milliseconds_def millisecond_def pos_imp_zdiv_nonneg_iff)
qed

lemma shape1_step1: "shape1 s \<Longrightarrow> shape1 (step1 pe s ev)"
  by (rule step1_preserves;
      simp add: shape1_def blocks1 split: option.splits sum.splits branch.splits)

lemma resolved1_step1: "resolved1 pe s \<Longrightarrow> resolved1 pe (step1 pe s ev)"
  by (rule step1_preserves;
      simp add: resolved1_def blocks1 split: option.splits sum.splits branch.splits)

lemma once1_step1: "once1 s \<Longrightarrow> once1 (step1 pe s ev)"
  by (rule step1_preserves;
      simp add: once1_def blocks1 split: option.splits sum.splits branch.splits)

lemma polled_step1: "polled s \<Longrightarrow> polled (step1 pe s ev)"
  by (rule step1_preserves;
      simp add: polled_def blocks1 split: option.splits sum.splits branch.splits)

lemma stopped_step1: "stopped qs s \<Longrightarrow> stopped qs (step1 pe s ev)"
  by (rule step1_preserves;
      auto simp add: stopped_def blocks1 split: option.splits sum.splits branch.splits)

lemma leaked1_step1: "leaked1 s \<Longrightarrow> leaked1 (step1 pe s ev)"
  by (rule step1_preserves;
      simp add: leaked1_def blocks1 split: option.splits sum.splits branch.splits)

lemma shape2_step2: "shape2 s \<Longrightarrow> shape2 (step2 pe s ev)"
  by (rule step2_preserves;
      simp add: shape2_def blocks2 split: option.splits sum.splits branch.splits)

lemma resolved2_step2: "resolved2 pe s \<Longrightarrow> resolved2 pe (step2 pe s ev)"
  by (rule step2_preserves;
      simp add: resolved2_def blocks2 split: option.splits sum.splits branch.splits)

lemma once2_step2: "once2 s \<Longrightarrow> once2 (step2 pe s ev)"
  by (rule step2_preserves;
      simp add: once2_def blocks2 split: option.splits sum.splits branch.splits)

lemma polled_step2: "polled s \<Longrightarrow> polled (step2 pe s ev)"
  by (rule step2_preserves;
      auto simp add: polled_def blocks2 split: option.splits sum.splits branch.splits)

lemma stopped_step2: "stopped qs s \<Longrightarrow> stopped qs (step2 pe s ev)"
  by (rule step2_preserves;
      auto simp add: stopped_def blocks2 split: option.splits sum.splits branch.splits)

lemma leaked2_step2: "leaked2 s \<Longrightarrow> leaked2 (step2 pe s ev)"
  by (rule step2_preserves;
      simp add: leaked2_def blocks2 split: option.splits sum.splits branch.splits)

lemma timed2_step2: "timed2 s \<Longrightarrow> timed2 (step2 pe s ev)"
  by (rule step2_preserves;
      auto simp add: timed2_def blocks2 since_nonneg dest: select2_OtherD
           split: option.splits sum.splits branch.splits)

lemma shape1_run1: "shape1 (run1 pe evs (init t0))"
  by (rule run1_invariant) (simp_all add: shape1_step1, simp add: shape1_def init_def)

lemma resolved1_run1: "resolved1 pe (run1 pe evs (init t0))"
  by (rule run1_invariant) (simp_all add: resolved1_step1, simp add: resolved1_def init_def)

lemma once1_run1: "once1 (run1 pe evs (init t0))"
  by (rule run1_invariant) (simp_all add: once1_step1, simp add: once1_def init_def)

lemma polled_run1: "polled (run1 pe evs (init t0))"
  by (rule run1_invariant) (simp_all add: polled_step1, simp add: polled_def init_def)

lemma shape2_run2: "shape2 (run2 pe evs (init t0))"
  by (rule run2_invariant) (simp_all add: shape2_step2, simp add: shape2_def init_def)

lemma resolved2_run2: "resolved2 pe (run2 pe evs (init t0))"
  by (rule run2_invariant) (simp_all add: resolved2_step2, simp add: resolved2_def init_def)

lemma once2_run2: "once2 (run2 pe evs (init t0))"
  by (rule run2_invariant) (simp_all add: once2_step2, simp add: once2_def init_def)

lemma polled_run2: "polled (run2 pe evs (init t0))"
  by (rule run2_invariant) (simp_all add: polled_step2, simp add: polled_def init_def)

lemma timed2_run2: "timed2 (run2 pe evs (init t0))"
  by (rule run2_invariant) (simp_all add: timed2_step2, simp add: timed2_def init_def)


section \<open>The namespace of a run\<close>

lemma shape1_namespace:
  assumes "shape1 s" and "c \<in> set (calls (ops s))"
  shows "op_namespace c = namespace s"
proof (cases "ops s")
  case Nil
  with assms(2) show ?thesis by simp
next
  case (Cons d ds)
  with assms(1) have hd: "fst d = Create (namespace s) (probe_name (instance_id s))"
    and tl: "\<forall>e\<in>set ds. fst e = ListPods (namespace s) (selector (instance_id s)) \<or>
                fst e = Patch (namespace s) (pod_name s) (label_patch (instance_id s)) \<or>
                fst e = Delete (namespace s) (pod_name s)"
    by (simp_all add: shape1_def list_all_iff)
  from assms(2) Cons have "c = fst d \<or> (\<exists>e\<in>set ds. c = fst e)"
    by (auto simp: calls_def)
  with hd tl show ?thesis by auto
qed

lemma shape2_namespace:
  assumes "shape2 s" and "c \<in> set (calls (ops s))"
  shows "op_namespace c = ''default''"
proof (cases "ops s")
  case Nil
  with assms(2) show ?thesis by simp
next
  case (Cons d ds)
  with assms(1) have hd: "fst d = Create ''default'' (probe_name (instance_id s))"
    and tl: "\<forall>e\<in>set ds. fst e = ListPods ''default'' (selector (instance_id s)) \<or>
                fst e = Patch ''default'' (pod_name s) (label_patch (instance_id s)) \<or>
                fst e = Delete ''default'' (pod_name s)"
    by (simp_all add: shape2_def list_all_iff)
  from assms(2) Cons have "c = fst d \<or> (\<exists>e\<in>set ds. c = fst e)"
    by (auto simp: calls_def)
  with hd tl show ?thesis by auto
qed

lemma calls_resolved1:
  assumes "c \<in> set (calls (ops (run1 pe evs (init t0))))"
  shows "currentNamespace pe = Inr (op_namespace c)"
proof -
  let ?s = "run1 pe evs (init t0)"
  have sh: "shape1 ?s" by (rule shape1_run1)
  from assms have "ops ?s \<noteq> []" by auto
  with sh have "mpc ?s \<noteq> M_Init" by (auto simp: shape1_def)
  with resolved1_run1 [of pe evs t0] have "currentNamespace pe = Inr (namespace ?s)"
    by (simp add: resolved1_def)
  with shape1_namespace [OF sh assms] show ?thesis by simp
qed

lemma unresolved1:
  assumes "currentNamespace pe = Inl e"
  shows "ops (run1 pe evs (init t0)) = [] \<and> status (run1 pe evs (init t0)) \<noteq> Exited"
proof -
  let ?s = "run1 pe evs (init t0)"
  from assms resolved1_run1 [of pe evs t0] have i: "mpc ?s = M_Init"
    by (auto simp: resolved1_def)
  with shape1_run1 [of pe evs t0] have "ops ?s = []" by (simp add: shape1_def)
  moreover from this once1_run1 [of pe evs t0] have "status ?s \<noteq> Exited"
    by (auto simp: once1_def)
  ultimately show ?thesis by simp
qed


text \<open>
  Claim C8, as amended. \<^verbatim>\<open>currentNamespace\<close> answers with the override variable when it
  is not empty, else with the content of the service account's namespace file, else with
  an error. In the instrumented main every API call of every run is made in the
  namespace it answered with; when it answers with an error no call is ever made, the run
  never returns normally, and (start-up having come that far) main's first step panics
  with that error. The uninstrumented main does not resolve a namespace: every API call
  of every run is made in \<^verbatim>\<open>"default"\<close>.
\<close>

theorem namespace_resolution:
  "(getenv pe ''K8S_NAMESPACE_NAME'' \<noteq> '''' \<longrightarrow>
      currentNamespace pe = Inr (getenv pe ''K8S_NAMESPACE_NAME'')) \<and>
   (getenv pe ''K8S_NAMESPACE_NAME'' = '''' \<longrightarrow>
      currentNamespace pe =
        (case read_file pe namespace_file of
           Inl err \<Rightarrow> Inl (''failed to read namespace: '' @ err) | Inr data \<Rightarrow> Inr data)) \<and>
   (\<forall>c \<in> set (calls (ops (run1 pe evs (init t0)))). currentNamespace pe = Inr (op_namespace c)) \<and>
   (\<forall>e. currentNamespace pe = Inl e \<longrightarrow>
      ops (run1 pe evs (init t0)) = [] \<and> status (run1 pe evs (init t0)) \<noteq> Exited \<and>
      (otel_exporter pe = None \<and> otel_resource pe = None \<and>
       in_cluster_config pe = None \<and> new_for_config pe = None \<longrightarrow>
         status (step1 pe (init t0) (Step Main r)) = Panicked e)) \<and>
   (\<forall>c \<in> set (calls (ops (run2 pe evs (init t0)))). op_namespace c = ''default'')"
proof (intro conjI allI impI ballI)
  assume "getenv pe ''K8S_NAMESPACE_NAME'' \<noteq> ''''"
  then show "currentNamespace pe = Inr (getenv pe ''K8S_NAMESPACE_NAME'')"
    by (simp add: currentNamespace_def)
next
  assume "getenv pe ''K8S_NAMESPACE_NAME'' = ''''"
  then show "currentNamespace pe =
        (case read_file pe namespace_file of
           Inl err \<Rightarrow> Inl (''failed to read namespace: '' @ err) | Inr data \<Rightarrow> Inr data)"
    by (simp add: currentNamespace_def)
next
  fix c assume "c \<in> set (calls (ops (run1 pe evs (init t0))))"
  then show "currentNamespace pe = Inr (op_namespace c)" by (rule calls_resolved1)
next
  fix e assume "currentNamespace pe = Inl e"
  then show "ops (run1 pe evs (init t0)) = []" by (simp add: unresolved1)
next
  fix e assume "currentNamespace pe = Inl e"
  then show "status (run1 pe evs (init t0)) \<noteq> Exited" by (simp add: unresolved1)
next
  fix e
  assume "currentNamespace pe = Inl e"
    and "otel_exporter pe = None \<and> otel_resource pe = None \<and>
       in_cluster_config pe = None \<and> new_for_config pe = None"
  then show "status (step1 pe (init t0) (Step Main r)) = Panicked e"
    by (simp add: step1_def main1_def m1_init_def main_panic_def main_deferred_def init_def)
next
  fix c assume "c \<in> set (calls (ops (run2 pe evs (init t0))))"
  with shape2_run2 show "op_namespace c = ''default''" by (rule shape2_namespace)
qed


text \<open>
  C8 at work: an override wins over the file; without it the file is read and the four
  calls of a run go to its namespace; without both, start-up panics and nothing is
  called; the uninstrumented main calls into \<^verbatim>\<open>"default"\<close>.
\<close>

theorem namespace_resolution_witness:
  "currentNamespace (cluster ''probes'' (Inr ''kube-system'')) = Inr ''probes'' \<and>
   currentNamespace (cluster '''' (Inr ''kube-system'')) = Inr ''kube-system'' \<and>
   map op_namespace (calls (ops (run1 (cluster '''' (Inr ''kube-system'')) found1 (init 0))))
     = [''kube-system'', ''kube-system'', ''kube-system'', ''kube-system''] \<and>
   currentNamespace (cluster '''' (Inl ''no such file or directory''))
     = Inl ''failed to read namespace: no such file or directory'' \<and>
   status (step1 (cluster '''' (Inl ''no such file or directory'')) (init 0) (Step Main ok))
     = Panicked ''failed to read namespace: no such file or directory'' \<and>
   ops (run1 (cluster '''' (Inl ''no such file or directory'')) found1 (init 0)) = [] \<and>
   map op_namespace (calls (ops (run2 (cluster ''probes'' (Inr ''kube-system'')) racing2 (init 0))))
     = [''default'', ''default'']"
proof -
  let ?K = "''K8S_NAMESPACE_NAME''"
  let ?ov = "cluster ''probes'' (Inr ''kube-system'')"
  let ?fl = "cluster '''' (Inr ''kube-system'')"
  let ?none = "cluster '''' (Inl ''no such file or directory'')"
  have ov: "getenv ?ov ?K \<noteq> ''''" and gov: "getenv ?ov ?K = ''probes''"
    by (simp_all add: cluster_def)
  have fl: "getenv ?fl ?K = ''''" and rfile: "read_file ?fl namespace_file = Inr ''kube-system''"
    by (simp_all add: cluster_def)
  have none: "getenv ?none ?K = ''''"
    and rnone: "read_file ?none namespace_file = Inl ''no such file or directory''"
    and up: "otel_exporter ?none = None \<and> otel_resource ?none = None \<and>
       in_cluster_config ?none = None \<and> new_for_config ?none = None"
    by (simp_all add: cluster_def)
  note a = namespace_resolution [of ?ov found1 0 ok]
  note b = namespace_resolution [of ?fl found1 0 ok]
  note c = namespace_resolution [of ?none found1 0 ok]
  note d = namespace_resolution [of ?ov racing2 0 ok]
  from a ov gov have 1: "currentNamespace ?ov = Inr ''probes''" by simp
  from b fl rfile have 2: "currentNamespace ?fl = Inr ''kube-system''" by simp
  have n: "length (calls (ops (run1 ?fl found1 (init 0)))) = 4" by code_simp
  from b 2 have "\<forall>c \<in> set (calls (ops (run1 ?fl found1 (init 0)))). op_namespace c = ''kube-system''"
    by auto
  with n have 3: "map op_namespace (calls (ops (run1 ?fl found1 (init 0))))
     = [''kube-system'', ''kube-system'', ''kube-system'', ''kube-system'']"
    by (auto simp: length_Suc_conv numeral_eq_Suc)
  from c none rnone have 4: "currentNamespace ?none
     = Inl ''failed to read namespace: no such file or directory''" by simp
  from c 4 up have 5: "status (step1 ?none (init 0) (Step Main ok))
     = Panicked ''failed to read namespace: no such file or directory''" 
    and 6: "ops (run1 ?none found1 (init 0)) = []" by blast+
  have m: "length (calls (ops (run2 ?ov racing2 (init 0)))) = 2" by code_simp
  from d have "\<forall>c \<in> set (calls (ops (run2 ?ov racing2 (init 0)))). op_namespace c = ''default''"
    by blast
  with m have 7: "map op_namespace (calls (ops (run2 ?ov racing2 (init 0)))) = [''default'', ''default'']"
    by (auto simp: length_Suc_conv numeral_eq_Suc)
  from 1 2 3 4 5 6 7 show ?thesis by blast
qed


text \<open>
  C8 as stated fails on the uninstrumented main: with the override set to
  \<^verbatim>\<open>probes\<close> the pod is still created in \<^verbatim>\<open>"default"\<close>.
\<close>

theorem default_namespace_ignores_override:
  "currentNamespace probes = Inr ''probes'' \<and>
   calls (ops (run2 probes [Step Main ok, Step Main ok] (init 0)))
     = [Create ''default'' ''probe-031425364758697a'']"
  by code_simp

section \<open>An empty namespace file\<close>

text \<open>
  Claim C10. When \<^verbatim>\<open>K8S_NAMESPACE_NAME\<close> is unset (or empty) and the namespace file
  exists but is empty, \<^verbatim>\<open>currentNamespace\<close> returns the empty string and no error; no
  run then makes an API call in any other namespace, and when the rest of start-up
  succeeds the run goes on, namespace empty, and main's next step issues the create in
  the namespace \<^verbatim>\<open>""\<close>.
\<close>

theorem empty_namespace_file_accepted:
  assumes "getenv pe ''K8S_NAMESPACE_NAME'' = ''''"
    and "read_file pe namespace_file = Inr ''''"
  shows "currentNamespace pe = Inr '''' \<and>
    (\<forall>c \<in> set (calls (ops (run1 pe evs (init t0)))). op_namespace c = '''') \<and>
    (otel_exporter pe = None \<and> otel_resource pe = None \<and> in_cluster_config pe = None \<and>
     new_for_config pe = None \<and> rand_err pe = None \<longrightarrow>
       status (run1 pe [Step Main r] (init t0)) = Running \<and>
       mpc (run1 pe [Step Main r] (init t0)) = M_Create \<and>
       namespace (run1 pe [Step Main r] (init t0)) = '''' \<and>
       ops (run1 pe [Step Main r, Step Main r'] (init t0)) =
         [(Create '''' (probe_name (new_instance pe)), result_of r' (Pod (pod r')))])"
proof (intro conjI ballI impI)
  from assms show ns: "currentNamespace pe = Inr ''''"
    by (simp add: currentNamespace_def)
  fix c assume "c \<in> set (calls (ops (run1 pe evs (init t0))))"
  then have "currentNamespace pe = Inr (op_namespace c)" by (rule calls_resolved1)
  with ns show "op_namespace c = ''''" by simp
next
  assume up: "otel_exporter pe = None \<and> otel_resource pe = None \<and> in_cluster_config pe = None \<and>
     new_for_config pe = None \<and> rand_err pe = None"
  from assms have ns: "currentNamespace pe = Inr ''''"
    by (simp add: currentNamespace_def)
  let ?s = "run1 pe [Step Main r] (init t0)"
  from up ns show 1: "status ?s = Running" and 2: "mpc ?s = M_Create" and 3: "namespace ?s = ''''"
    by (simp_all add: run1_Cons step1_def main1_def m1_init_def init_def)
  from up ns have 4: "ops ?s = []" and 5: "instance_id ?s = new_instance pe"
    by (simp_all add: run1_Cons step1_def main1_def m1_init_def init_def)
  have "run1 pe [Step Main r, Step Main r'] (init t0) = step1 pe ?s (Step Main r')"
    by (simp add: run1_Cons)
  with 1 2 3 4 5 show "ops (run1 pe [Step Main r, Step Main r'] (init t0)) =
         [(Create '''' (probe_name (new_instance pe)), result_of r' (Pod (pod r')))]"
    by (simp add: step1_def main1_def m1_create_def main_panic_def main_deferred_def Let_def
             split: option.splits)
qed

text \<open>C10 on a cluster whose namespace file is empty.\<close>

theorem empty_namespace_file_accepted_witness:
  "getenv (cluster '''' (Inr '''')) ''K8S_NAMESPACE_NAME'' = '''' \<and>
   read_file (cluster '''' (Inr '''')) namespace_file = Inr '''' \<and>
   currentNamespace (cluster '''' (Inr '''')) = Inr '''' \<and>
   status (run1 (cluster '''' (Inr '''')) [Step Main ok] (init 0)) = Running \<and>
   ops (run1 (cluster '''' (Inr '''')) [Step Main ok, Step Main ok] (init 0)) =
     [(Create '''' ''probe-031425364758697a'', Pod ''probe-031425364758697a'')]"
proof -
  let ?pe = "cluster '''' (Inr '''')"
  have 1: "getenv ?pe ''K8S_NAMESPACE_NAME'' = ''''"
    and 2: "read_file ?pe namespace_file = Inr ''''"
    and up: "otel_exporter ?pe = None \<and> otel_resource ?pe = None \<and> in_cluster_config ?pe = None \<and>
     new_for_config ?pe = None \<and> rand_err ?pe = None"
    by (simp_all add: cluster_def)
  have 3: "probe_name (new_instance ?pe) = ''probe-031425364758697a''" by code_simp
  have 4: "result_of ok (Pod (pod ok)) = Pod ''probe-031425364758697a''" by code_simp
  from empty_namespace_file_accepted [OF 1 2, of "[]" 0 ok ok] up 1 2 3 4
  show ?thesis by simp
qed

section \<open>Errors of the API calls\<close>











section \<open>The race and the cleanup\<close>

lemma race_resolves1:
  assumes "status s = Running" and "mpc s = M_Select" and "ctx_done s \<or> ppc s = P_Send"
  shows "mpc (step1 pe s (Step Main r)) = M_Delete"
    and "status (step1 pe s (Step Main r)) = Running"
    and "ops (step1 pe s (Step Main r)) = ops s"
    and "namespace (step1 pe s (Step Main r)) = namespace s"
    and "pod_name (step1 pe s (Step Main r)) = pod_name s"
  using assms
  by (auto simp add: step1_def main1_def m1_select_def select2_def)

lemma delete_issued1:
  assumes "status s = Running" and "mpc s = M_Delete"
  shows "calls (ops (step1 pe s (Step Main r))) = calls (ops s) @ [Delete (namespace s) (pod_name s)]"
  using assms
  by (simp add: step1_def main1_def m1_delete_def main_panic_def main_deferred_def Let_def
           split: option.splits)

lemma found_taken2:
  assumes "status s = Running" and "cpc s = C_Select"
    and "select2 (ctx_done s) (ppc s = P_Send \<or> found_closed s) (prefer_ctx r) = Other"
  shows "out (step2 pe s (Step Coordinator r)) =
           out s @ [PodFoundLatency (milliseconds (since (start s) (clock s))), DeletingPod]"
    and "cpc (step2 pe s (Step Coordinator r)) = C_Delete"
    and "status (step2 pe s (Step Coordinator r)) = Running"
    and "ops (step2 pe s (Step Coordinator r)) = ops s"
    and "pod_name (step2 pe s (Step Coordinator r)) = pod_name s"
  using assms by (simp_all add: step2_def coordinator2_def c2_select_def)

lemma delete_issued2:
  assumes "status s = Running" and "cpc s = C_Delete"
  shows "calls (ops (step2 pe s (Step Coordinator r))) = calls (ops s) @ [Delete ''default'' (pod_name s)]"
  using assms
  by (simp add: step2_def coordinator2_def c2_delete_def Let_def split: option.splits)

text \<open>
  Claim C1, as amended. In the instrumented main the delete is never invoked twice, and
  only against the name of the pod that the create returned. A run that has returned
  normally has invoked it exactly once; a run that has not, and whose main goroutine is
  not at its delete, has not invoked it (so a panic before the cleanup leaves the pod
  behind). When main waits in its race and either case is
  ready (the context is done, or the poller waits to send), main's next step leaves the
  \<^verbatim>\<open>select\<close> and the one after invokes the delete, whichever case was taken. In the
  uninstrumented main the delete is never invoked twice either, and only against that
  name; when the coordinator's \<^verbatim>\<open>select\<close> takes the visibility signal, its next step
  invokes the delete.
\<close>

theorem delete_at_most_once:
  "(let s = run1 pe evs (init t0) in
     (delete_calls (ops s) = [] \<or> delete_calls (ops s) = [Delete (namespace s) (pod_name s)]) \<and>
     (status s = Exited \<longrightarrow>
        delete_calls (ops s) = [Delete (namespace s) (pod_name s)] \<and>
        hd (ops s) = (Create (namespace s) (probe_name (instance_id s)), Pod (pod_name s))) \<and>
     (status s \<noteq> Exited \<and> mpc s \<noteq> M_Delete \<longrightarrow> delete_calls (ops s) = []) \<and>
     (status s = Running \<and> mpc s = M_Select \<and> (ctx_done s \<or> ppc s = P_Send) \<longrightarrow>
        mpc (step1 pe s (Step Main r)) = M_Delete \<and>
        status (step1 pe s (Step Main r)) = Running \<and>
        calls (ops (run1 pe [Step Main r, Step Main r'] s)) =
          calls (ops s) @ [Delete (namespace s) (pod_name s)])) \<and>
   (let s = run2 pe evs (init t0) in
     (delete_calls (ops s) = [] \<or> delete_calls (ops s) = [Delete ''default'' (pod_name s)]) \<and>
     (delete_calls (ops s) \<noteq> [] \<longrightarrow>
        hd (ops s) = (Create ''default'' (probe_name (instance_id s)), Pod (pod_name s))) \<and>
     (status s = Running \<and> cpc s = C_Select \<and>
      select2 (ctx_done s) (ppc s = P_Send \<or> found_closed s) (prefer_ctx r) = Other \<longrightarrow>
        cpc (step2 pe s (Step Coordinator r)) = C_Delete \<and>
        status (step2 pe s (Step Coordinator r)) = Running \<and>
        calls (ops (run2 pe [Step Coordinator r, Step Coordinator r'] s)) =
          calls (ops s) @ [Delete ''default'' (pod_name s)]))"
proof -
  let ?s = "run1 pe evs (init t0)" and ?u = "run2 pe evs (init t0)"
  have o1: "once1 ?s" and s1: "shape1 ?s" by (rule once1_run1, rule shape1_run1)
  have o2: "once2 ?u" and s2: "shape2 ?u" by (rule once2_run2, rule shape2_run2)
  from o1 have a: "delete_calls (ops ?s) = [] \<or>
      delete_calls (ops ?s) = [Delete (namespace ?s) (pod_name ?s)]"
    by (simp add: once1_def)
  have b: "delete_calls (ops ?s) = [Delete (namespace ?s) (pod_name ?s)] \<and>
        hd (ops ?s) = (Create (namespace ?s) (probe_name (instance_id ?s)), Pod (pod_name ?s))"
    if "status ?s = Exited"
  proof -
    from that o1 have d: "delete_calls (ops ?s) = [Delete (namespace ?s) (pod_name ?s)]"
      and m: "mpc ?s = M_Done" by (simp_all add: once1_def)
    from m s1 have "ops ?s \<noteq> []" "snd (hd (ops ?s)) = Pod (pod_name ?s)"
      "fst (hd (ops ?s)) = Create (namespace ?s) (probe_name (instance_id ?s))"
      by (simp_all add: shape1_def)
    with d show ?thesis by (simp add: prod_eq_iff)
  qed
  from o1 have g: "status ?s \<noteq> Exited \<and> mpc ?s \<noteq> M_Delete \<longrightarrow> delete_calls (ops ?s) = []"
    by (simp add: once1_def)
  have c: "mpc (step1 pe ?s (Step Main r)) = M_Delete \<and>
        status (step1 pe ?s (Step Main r)) = Running \<and>
        calls (ops (run1 pe [Step Main r, Step Main r'] ?s)) =
          calls (ops ?s) @ [Delete (namespace ?s) (pod_name ?s)]"
    if "status ?s = Running \<and> mpc ?s = M_Select \<and> (ctx_done ?s \<or> ppc ?s = P_Send)"
  proof -
    from that have h: "status ?s = Running" "mpc ?s = M_Select" "ctx_done ?s \<or> ppc ?s = P_Send"
      by simp_all
    note r = race_resolves1 [OF h, of pe r]
    from delete_issued1 [OF r(2) r(1), of pe r'] r show ?thesis
      by (simp add: run1_Cons)
  qed
  from o2 have d: "delete_calls (ops ?u) = [] \<or>
      delete_calls (ops ?u) = [Delete ''default'' (pod_name ?u)]"
    by (simp add: once2_def)
  have e: "hd (ops ?u) = (Create ''default'' (probe_name (instance_id ?u)), Pod (pod_name ?u))"
    if "delete_calls (ops ?u) \<noteq> []"
  proof -
    from that have n: "ops ?u \<noteq> []" by auto
    with s2 have "mpc ?u \<noteq> M_Init" by (auto simp add: shape2_def)
    moreover have "mpc ?u \<noteq> M_Create"
    proof
      assume m: "mpc ?u = M_Create"
      with o2 have "cpc ?u = C_Idle" by (simp add: once2_def)
      with o2 have "delete_calls (ops ?u) = []" by (simp add: once2_def)
      with that show False by simp
    qed
    ultimately have "mpc ?u \<noteq> M_Init \<and> mpc ?u \<noteq> M_Create" by simp
    with s2 have "ops ?u \<noteq> []" "snd (hd (ops ?u)) = Pod (pod_name ?u)"
      "fst (hd (ops ?u)) = Create ''default'' (probe_name (instance_id ?u))"
      by (simp_all add: shape2_def)
    then show ?thesis by (simp add: prod_eq_iff)
  qed
  have f: "cpc (step2 pe ?u (Step Coordinator r)) = C_Delete \<and>
        status (step2 pe ?u (Step Coordinator r)) = Running \<and>
        calls (ops (run2 pe [Step Coordinator r, Step Coordinator r'] ?u)) =
          calls (ops ?u) @ [Delete ''default'' (pod_name ?u)]"
    if "status ?u = Running \<and> cpc ?u = C_Select \<and>
      select2 (ctx_done ?u) (ppc ?u = P_Send \<or> found_closed ?u) (prefer_ctx r) = Other"
  proof -
    from that have h: "status ?u = Running" "cpc ?u = C_Select"
      "select2 (ctx_done ?u) (ppc ?u = P_Send \<or> found_closed ?u) (prefer_ctx r) = Other"
      by simp_all
    note t = found_taken2 [OF h, of pe]
    from delete_issued2 [OF t(3) t(2), of pe r'] t show ?thesis
      by (simp add: run2_Cons)
  qed
  from a b c d e f g show ?thesis unfolding Let_def by blast
qed

text \<open>
  C1 where the deadline fires before any query found the pod: main leaves the race by
  \<^verbatim>\<open>ctx.Done()\<close>, deletes the pod it created and returns. And in the uninstrumented
  main, where the coordinator deletes the pod that was found.
\<close>

theorem delete_at_most_once_witness:
  "status (run1 probes expired1 (init 0)) = Running \<and>
   mpc (run1 probes expired1 (init 0)) = M_Select \<and>
   ctx_done (run1 probes expired1 (init 0)) \<and>
   found_calls (ops (run1 probes expired1 (init 0))) = [] \<and>
   calls (ops (run1 probes [Step Main ok, Step Main ok] (run1 probes expired1 (init 0)))) =
     calls (ops (run1 probes expired1 (init 0))) @ [Delete ''probes'' ''probe-031425364758697a''] \<and>
   status (run1 probes (expired1 @ [Step Main ok, Step Main ok]) (init 0)) = Exited \<and>
   delete_calls (ops (run1 probes (expired1 @ [Step Main ok, Step Main ok]) (init 0))) =
     [Delete ''probes'' ''probe-031425364758697a''] \<and>
   status (run1 probes (racing1 @ failed_query) (init 0)) = Panicked ''connection refused'' \<and>
   mpc (run1 probes (racing1 @ failed_query) (init 0)) = M_Select \<and>
   delete_calls (ops (run1 probes (racing1 @ failed_query) (init 0))) = [] \<and>
   status (run2 probes found2 (init 0)) = Running \<and>
   cpc (run2 probes found2 (init 0)) = C_Select \<and>
   ppc (run2 probes found2 (init 0)) = P_Send \<and>
   calls (ops (run2 probes [Step Coordinator ok, Step Coordinator ok] (run2 probes found2 (init 0))))
     = calls (ops (run2 probes found2 (init 0))) @ [Delete ''default'' ''probe-031425364758697a''] \<and>
   delete_calls (ops (run2 probes (found2 @ [Step Coordinator ok, Step Coordinator ok]) (init 0)))
     = [Delete ''default'' ''probe-031425364758697a'']"
proof -
  let ?s = "run1 probes expired1 (init 0)"
  let ?t = "run1 probes (expired1 @ [Step Main ok, Step Main ok]) (init 0)"
  let ?u = "run2 probes (found2 @ [Step Coordinator ok, Step Coordinator ok]) (init 0)"
  have 1: "status ?s = Running" by code_simp
  have 2: "mpc ?s = M_Select" by code_simp
  have 3: "ctx_done ?s" by code_simp
  have 4: "found_calls (ops ?s) = []" by code_simp
  have 5: "namespace ?s = ''probes''" "pod_name ?s = ''probe-031425364758697a''" by code_simp+
  have 6: "status ?t = Exited" by code_simp
  have 7: "namespace ?t = ''probes''" "pod_name ?t = ''probe-031425364758697a''" by code_simp+
  let ?v = "run2 probes found2 (init 0)"
  have 8: "delete_calls (ops ?u) \<noteq> []" by code_simp
  have 9: "pod_name ?u = ''probe-031425364758697a''" by code_simp
  have 10: "status ?v = Running" "cpc ?v = C_Select" "ppc ?v = P_Send"
    "select2 (ctx_done ?v) (ppc ?v = P_Send \<or> found_closed ?v) (prefer_ctx ok) = Other"
    "pod_name ?v = ''probe-031425364758697a''" by code_simp+
  note a = delete_at_most_once [of probes expired1 0 ok ok, unfolded Let_def]
  note b = delete_at_most_once [of probes "expired1 @ [Step Main ok, Step Main ok]" 0 ok ok,
      unfolded Let_def]
  note c = delete_at_most_once [of probes "found2 @ [Step Coordinator ok, Step Coordinator ok]" 0 ok ok,
      unfolded Let_def]
  from a 1 2 3 5 have A: "calls (ops (run1 probes [Step Main ok, Step Main ok] ?s)) =
     calls (ops ?s) @ [Delete ''probes'' ''probe-031425364758697a'']" by simp
  from b 6 7 have B: "delete_calls (ops ?t) = [Delete ''probes'' ''probe-031425364758697a'']"
    by simp
  note d = delete_at_most_once [of probes found2 0 ok ok, unfolded Let_def]
  from c 8 9 have C: "delete_calls (ops ?u) = [Delete ''default'' ''probe-031425364758697a'']"
    by simp
  from d 10 have D: "calls (ops (run2 probes [Step Coordinator ok, Step Coordinator ok] ?v)) =
     calls (ops ?v) @ [Delete ''default'' ''probe-031425364758697a'']" by simp
  let ?w = "run1 probes (racing1 @ failed_query) (init 0)"
  have 11: "status ?w = Panicked ''connection refused''" "mpc ?w = M_Select" by code_simp+
  note e = delete_at_most_once [of probes "racing1 @ failed_query" 0 ok ok, unfolded Let_def]
  from e 11 have E: "delete_calls (ops ?w) = []" by simp
  from 1 2 3 4 6 10(1-3) 11 A B C D E show ?thesis by simp
qed

text \<open>
  C1 as stated fails: the pod is created, main waits in its race, a signal cancels the
  context, the poller's \<^verbatim>\<open>select\<close> takes the pending tick, its query fails and the
  panic ends the process. The delete is never invoked.
\<close>

theorem panic_skips_delete:
  "hd (ops (run1 probes cancelled_query1 (init 0))) =
     (Create ''probes'' ''probe-031425364758697a'', Pod ''probe-031425364758697a'') \<and>
   mpc (run1 probes cancelled_query1 (init 0)) = M_Select \<and>
   ctx_done (run1 probes cancelled_query1 (init 0)) \<and>
   status (run1 probes cancelled_query1 (init 0)) = Panicked ''context canceled'' \<and>
   delete_calls (ops (run1 probes (cancelled_query1 @ [Step Main ok, Step Main ok]) (init 0))) = []"
  by code_simp

text \<open>
  What the uninstrumented main does when the deadline fires first: the coordinator
  prints and returns, main returns, and the trace holds no delete.
\<close>

lemma uninstrumented_timeout:
  "status (run2 probes (expired2 @ [Step Coordinator ok, Step Main ok]) (init 0)) = Exited \<and>
   calls (ops (run2 probes (expired2 @ [Step Coordinator ok, Step Main ok]) (init 0))) =
     [Create ''default'' ''probe-031425364758697a'',
      Patch ''default'' ''probe-031425364758697a'' (label_patch ''031425364758697a'')]"
  by code_simp

section \<open>The poller's send\<close>

text \<open>
  Claim C6, on the schedule it names. In the instrumented main the first query finds the
  pod, a signal cancels the context before main reaches its \<^verbatim>\<open>select\<close>, and the
  \<^verbatim>\<open>select\<close> takes \<^verbatim>\<open>ctx.Done()\<close>: the poller waits in its send on \<^verbatim>\<open>found\<close>, and
  whatever events follow, it is still there. The same in the uninstrumented main, once the
  coordinator has returned through \<^verbatim>\<open>ctx.Done()\<close>.
\<close>

theorem poller_send_never_returns:
  "mpc (run1 probes leak1 (init 0)) = M_Delete \<and>
   ctx_done (run1 probes leak1 (init 0)) \<and>
   ppc (run1 probes (leak1 @ evs) (init 0)) = P_Send \<and>
   cpc (run2 probes leak2 (init 0)) = C_Done \<and>
   ppc (run2 probes (leak2 @ evs) (init 0)) = P_Send"
proof -
  have 1: "mpc (run1 probes leak1 (init 0)) = M_Delete" by code_simp
  have 2: "ctx_done (run1 probes leak1 (init 0))" by code_simp
  have 3: "cpc (run2 probes leak2 (init 0)) = C_Done" by code_simp
  have "leaked1 (run1 probes leak1 (init 0))" by code_simp
  then have "leaked1 (run1 probes evs (run1 probes leak1 (init 0)))"
    by (rule run1_invariant) (rule leaked1_step1)
  then have 4: "ppc (run1 probes (leak1 @ evs) (init 0)) = P_Send"
    by (simp add: run1_append leaked1_def)
  have "leaked2 (run2 probes leak2 (init 0))" by code_simp
  then have "leaked2 (run2 probes evs (run2 probes leak2 (init 0)))"
    by (rule run2_invariant) (rule leaked2_step2)
  then have 5: "ppc (run2 probes (leak2 @ evs) (init 0)) = P_Send"
    by (simp add: run2_append leaked2_def)
  from 1 2 3 4 5 show ?thesis by simp
qed


section \<open>The latency\<close>

lemma deadline_taken2:
  assumes "status s = Running" and "cpc s = C_Select"
    and "select2 (ctx_done s) (ppc s = P_Send \<or> found_closed s) (prefer_ctx r) = CtxDone"
  shows "out (step2 pe s (Step Coordinator r)) = out s @ [DeadlineExpired]"
    and "cpc (step2 pe s (Step Coordinator r)) = C_Done"
  using assms by (simp_all add: step2_def coordinator2_def c2_select_def)

lemma latency_bounds:
  assumes "timed2 s" and "cpc s = C_Select"
  shows "0 \<le> milliseconds (since (start s) (clock s))"
    and "\<not> ctx_done s \<Longrightarrow> since (start s) (clock s) = clock s - start s"
    and "\<not> ctx_done s \<Longrightarrow> milliseconds (since (start s) (clock s)) < 300000"
proof -
  from assms have le: "start s \<le> clock s" and d: "the (deadline s) - timeout \<le> start s"
    and m: "mpc s \<noteq> M_Init"
    by (auto simp add: timed2_def)
  from le show "0 \<le> milliseconds (since (start s) (clock s))" by (rule since_nonneg)
  assume n: "\<not> ctx_done s"
  from m assms(1) obtain dl where dl: "deadline s = Some dl" by (auto simp add: timed2_def)
  with n have "clock s < dl" by (simp add: ctx_done_def)
  with d dl have lt: "clock s - start s < timeout" by simp
  with le show eq: "since (start s) (clock s) = clock s - start s"
    by (simp add: since_def timeout_def millisecond_def max_def min_def)
  from lt le show "milliseconds (since (start s) (clock s)) < 300000"
    unfolding eq by (simp add: milliseconds_def timeout_def millisecond_def)
qed





text \<open>
  In the uninstrumented main a signal may cancel the context before the coordinator
  reaches its \<^verbatim>\<open>select\<close>; with the poller waiting to send, the \<^verbatim>\<open>select\<close> may still
  take \<^verbatim>\<open>found\<close> and print a latency.
\<close>

lemma latency_after_cancellation:
  "ctx_done (run2 probes [Step Main ok, Step Main ok, Step Poller ok, Advance 100000000,
       Step Poller ok, Step Poller finding, Step Coordinator ok, Signal] (init 0)) \<and>
   latencies (out (run2 probes [Step Main ok, Step Main ok, Step Poller ok, Advance 100000000,
       Step Poller ok, Step Poller finding, Step Coordinator ok, Signal, Step Coordinator ok]
       (init 0))) = [0]"
  by code_simp

section \<open>The poller\<close>

lemma list_calls_tl:
  assumes "list_all (\<lambda>c. fst c = ListPods n l \<or> fst c = Patch n p b \<or> fst c = Delete n p) cs"
  shows "list_all (\<lambda>c. fst c = ListPods n l) (list_calls cs)"
  using assms by (induction cs) auto

lemma shape1_list_calls:
  assumes "shape1 s"
  shows "list_all (\<lambda>c. fst c = ListPods (namespace s) (selector (instance_id s)))
           (list_calls (ops s))"
proof (cases "ops s")
  case Nil
  then show ?thesis by simp
next
  case (Cons d ds)
  with assms have "fst d = Create (namespace s) (probe_name (instance_id s))"
    and "list_all (\<lambda>c. fst c = ListPods (namespace s) (selector (instance_id s)) \<or>
                    fst c = Patch (namespace s) (pod_name s) (label_patch (instance_id s)) \<or>
                    fst c = Delete (namespace s) (pod_name s)) ds"
    by (simp_all add: shape1_def)
  with Cons show ?thesis by (simp add: list_calls_tl)
qed

lemma shape2_list_calls:
  assumes "shape2 s"
  shows "list_all (\<lambda>c. fst c = ListPods ''default'' (selector (instance_id s)))
           (list_calls (ops s))"
proof (cases "ops s")
  case Nil
  then show ?thesis by simp
next
  case (Cons d ds)
  with assms have "fst d = Create ''default'' (probe_name (instance_id s))"
    and "list_all (\<lambda>c. fst c = ListPods ''default'' (selector (instance_id s)) \<or>
                    fst c = Patch ''default'' (pod_name s) (label_patch (instance_id s)) \<or>
                    fst c = Delete ''default'' (pod_name s)) ds"
    by (simp_all add: shape2_def)
  with Cons show ?thesis by (simp add: list_calls_tl)
qed

lemma polled_found_once:
  assumes "polled s"
  shows "length (found_calls (ops s)) \<le> 1"
proof (cases "list_calls (ops s) = []")
  case True
  then have "found_calls (list_calls (ops s)) = []" by simp
  then show ?thesis by simp
next
  case False
  then have "list_calls (ops s) = butlast (list_calls (ops s)) @ [last (list_calls (ops s))]"
    by simp
  then have "found_calls (list_calls (ops s)) =
      found_calls (butlast (list_calls (ops s))) @ found_calls [last (list_calls (ops s))]"
    by (metis found_calls_simps(2))
  with assms have "found_calls (ops s) = found_calls [last (list_calls (ops s))]"
    by (simp add: polled_def)
  then show ?thesis by simp
qed

lemma polled_found_stopped:
  assumes "polled s" and "found_calls (ops s) \<noteq> []"
  shows "ppc s = P_Send \<or> ppc s = P_Close \<or> ppc s = P_Done"
  using assms by (cases "ppc s") (simp_all add: polled_def)

lemma polling_stopped1:
  assumes "polled s" and "ppc s = P_Send \<or> ppc s = P_Close \<or> ppc s = P_Done"
  shows "list_calls (ops (run1 pe evs s)) = list_calls (ops s)"
proof -
  from assms have "stopped (list_calls (ops s)) s" by (auto simp add: stopped_def polled_def)
  then have "stopped (list_calls (ops s)) (run1 pe evs s)"
    by (rule run1_invariant) (rule stopped_step1)
  then show ?thesis by (simp add: stopped_def)
qed

lemma polling_stopped2:
  assumes "polled s" and "ppc s = P_Send \<or> ppc s = P_Close \<or> ppc s = P_Done"
  shows "list_calls (ops (run2 pe evs s)) = list_calls (ops s)"
proof -
  from assms have "stopped (list_calls (ops s)) s" by (auto simp add: stopped_def polled_def)
  then have "stopped (list_calls (ops s)) (run2 pe evs s)"
    by (rule run2_invariant) (rule stopped_step2)
  then show ?thesis by (simp add: stopped_def)
qed

lemma poller_steps1:
  assumes "status s = Running"
  shows "ppc s = P_Start \<Longrightarrow>
      ticker (step1 pe s (Step Poller r)) = Some (clock s + 100 * millisecond) \<and>
      ppc (step1 pe s (Step Poller r)) = P_List"
    and "ppc s = P_Wait \<Longrightarrow> select2 (ctx_done s) (tick_pending s) (prefer_ctx r) = Other \<Longrightarrow>
      ppc (step1 pe s (Step Poller r)) = P_List \<and> \<not> tick_pending (step1 pe s (Step Poller r))"
    and "ppc s = P_List \<Longrightarrow>
      ops (step1 pe s (Step Poller r)) =
        ops s @ [(ListPods (namespace s) (selector (instance_id s)), result_of r (Items (items r)))]"
    and "ppc s = P_List \<Longrightarrow> failure r = None \<Longrightarrow>
      ppc (step1 pe s (Step Poller r)) = (if items r \<noteq> [] then P_Send else P_Wait)"
  using assms
  by (simp_all add: step1_def poller1_def p1_start_def p1_wait_def p1_list_def interval_def Let_def
        split: option.splits)

lemma poller_steps2:
  assumes "status s = Running"
  shows "ppc s = P_Start \<Longrightarrow>
      ticker (step2 pe s (Step Poller r)) = Some (clock s + 100 * millisecond) \<and>
      ppc (step2 pe s (Step Poller r)) = P_Wait"
    and "ppc s = P_Wait \<Longrightarrow> select2 (ctx_done s) (tick_pending s) (prefer_ctx r) = Other \<Longrightarrow>
      ppc (step2 pe s (Step Poller r)) = P_List \<and> \<not> tick_pending (step2 pe s (Step Poller r))"
    and "ppc s = P_List \<Longrightarrow>
      ops (step2 pe s (Step Poller r)) =
        ops s @ [(ListPods ''default'' (selector (instance_id s)), result_of r (Items (items r)))]"
    and "ppc s = P_List \<Longrightarrow> failure r = None \<Longrightarrow>
      ppc (step2 pe s (Step Poller r)) = (if items r \<noteq> [] then P_Send else P_Wait)"
  using assms
  by (simp_all add: step2_def poller2_def p2_start_def p2_wait_def p2_list_def interval_def Let_def
        split: option.splits)





section \<open>The two versions\<close>

lemma probe_trace_run1:
  assumes "currentNamespace pe = Inr n"
  shows "probe_trace n (new_instance pe) (pod_name (run1 pe evs (init t0)))
           (calls (ops (run1 pe evs (init t0))))"
proof (cases "ops (run1 pe evs (init t0))")
  case Nil
  then show ?thesis by (simp add: probe_trace_def)
next
  case (Cons d ds)
  let ?s = "run1 pe evs (init t0)"
  have sh: "shape1 ?s" and re: "resolved1 pe ?s" and on: "once1 ?s"
    by (rule shape1_run1, rule resolved1_run1, rule once1_run1)
  from Cons sh have "mpc ?s \<noteq> M_Init" by (auto simp add: shape1_def)
  with re assms have n: "namespace ?s = n" and i: "instance_id ?s = new_instance pe"
    by (simp_all add: resolved1_def)
  from Cons sh n i have hd: "fst d = Create n (probe_name (new_instance pe))"
    and tl: "list_all (\<lambda>c. fst c = ListPods n (selector (new_instance pe)) \<or>
                    fst c = Patch n (pod_name ?s) (label_patch (new_instance pe)) \<or>
                    fst c = Delete n (pod_name ?s)) ds"
    by (simp_all add: shape1_def)
  from tl have tl': "list_all (\<lambda>d. d = ListPods n (selector (new_instance pe)) \<or>
                    d = Patch n (pod_name ?s) (label_patch (new_instance pe)) \<or>
                    d = Delete n (pod_name ?s)) (map fst ds)"
    by (simp add: list_all_iff)
  from on have "delete_calls (ops ?s) = [] \<or>
      delete_calls (ops ?s) = [Delete (namespace ?s) (pod_name ?s)]"
    by (simp add: once1_def)
  then have "length (delete_calls (ops ?s)) \<le> 1" by auto
  moreover from on have "length (patch_calls (ops ?s)) \<le> 1" by (simp add: once1_def)
  ultimately have "length (patch_calls (ops ?s)) \<le> 1" and "length (delete_calls (ops ?s)) \<le> 1"
    by simp_all
  with Cons hd have "length (filter is_patch (map fst ds)) \<le> 1"
    and "length (filter is_delete (map fst ds)) \<le> 1"
    by (simp_all add: patch_calls_def delete_calls_def)
  with Cons hd tl' show ?thesis by (simp add: probe_trace_def calls_def)
qed

lemma probe_trace_run2:
  "probe_trace ''default'' (new_instance pe) (pod_name (run2 pe evs (init t0)))
           (calls (ops (run2 pe evs (init t0))))"
proof (cases "ops (run2 pe evs (init t0))")
  case Nil
  then show ?thesis by (simp add: probe_trace_def)
next
  case (Cons d ds)
  let ?s = "run2 pe evs (init t0)"
  have sh: "shape2 ?s" and re: "resolved2 pe ?s" and on: "once2 ?s"
    by (rule shape2_run2, rule resolved2_run2, rule once2_run2)
  from Cons sh have "mpc ?s \<noteq> M_Init" by (auto simp add: shape2_def)
  with re have i: "instance_id ?s = new_instance pe"
    by (simp_all add: resolved2_def)
  from Cons sh i have hd: "fst d = Create ''default'' (probe_name (new_instance pe))"
    and tl: "list_all (\<lambda>c. fst c = ListPods ''default'' (selector (new_instance pe)) \<or>
                    fst c = Patch ''default'' (pod_name ?s) (label_patch (new_instance pe)) \<or>
                    fst c = Delete ''default'' (pod_name ?s)) ds"
    by (simp_all add: shape2_def)
  from tl have tl': "list_all (\<lambda>d. d = ListPods ''default'' (selector (new_instance pe)) \<or>
                    d = Patch ''default'' (pod_name ?s) (label_patch (new_instance pe)) \<or>
                    d = Delete ''default'' (pod_name ?s)) (map fst ds)"
    by (simp add: list_all_iff)
  from on have "delete_calls (ops ?s) = [] \<or>
      delete_calls (ops ?s) = [Delete ''default'' (pod_name ?s)]"
    by (simp add: once2_def)
  then have "length (delete_calls (ops ?s)) \<le> 1" by auto
  moreover from on have "length (patch_calls (ops ?s)) \<le> 1" by (simp add: once2_def)
  ultimately have "length (patch_calls (ops ?s)) \<le> 1" and "length (delete_calls (ops ?s)) \<le> 1"
    by simp_all
  with Cons hd have "length (filter is_patch (map fst ds)) \<le> 1"
    and "length (filter is_delete (map fst ds)) \<le> 1"
    by (simp_all add: patch_calls_def delete_calls_def)
  with Cons hd tl' show ?thesis by (simp add: probe_trace_def calls_def)
qed




end
